theory Spec2Isabelle
  imports Complex_Main "HOL-Library.AList" "HOL-Library.Multiset"
begin

section \<open>Python values used by the test-tracking client\<close>

subsection \<open>Exceptions\<close>

text \<open>
  An exception is its class and its message (\<open>str(e)\<close>). Only subclasses of Python's
  \<open>Exception\<close> are modelled, so a handler \<open>except Exception\<close> catches every value of
  \<open>exn\<close>; \<open>KeyboardInterrupt\<close> and \<open>SystemExit\<close> are outside the model.
\<close>

datatype exn_class =
    Timeout | ConnectionError | ValueError | TypeError | KeyError | OverflowError
  | AttributeError | OSError | ImportError | OtherException

datatype exn = Exn (exn_cls: exn_class) (exn_msg: string)

subsection \<open>Floats (IEEE binary64)\<close>

text \<open>
  A finite float \<open>Finite m e\<close> has the value \<open>m * 2 ^ e\<close>. Results of arithmetic are
  rounded to 53 significant bits, ties to even, with the exponent of the last bit no smaller
  than -1074; a magnitude of \<open>2 ^ 1024\<close> or more overflows to an infinity. The sign of zero
  is not kept (no operation below reads it).
\<close>

datatype pyfloat = Finite int int | PosInf | NegInf | NaN

function bit_length :: "nat \<Rightarrow> nat" where
  "bit_length n = (if n = 0 then 0 else Suc (bit_length (n div 2)))"
  by pat_completeness auto
termination
  by (relation "measure (\<lambda>n. n)") auto

declare bit_length.simps [simp del]

definition round_shift :: "int \<Rightarrow> nat \<Rightarrow> int" where
  "round_shift m k =
     (if k = 0 then m
      else let a = \<bar>m\<bar>; q = a div 2 ^ k; r = a mod 2 ^ k; half = 2 ^ (k - 1);
               up = (half < r \<or> (r = half \<and> odd q))
           in sgn m * (q + (if up then 1 else 0)))"

definition fround :: "int \<Rightarrow> int \<Rightarrow> pyfloat" where
  "fround m e =
     (let k = nat (max (int (bit_length (nat \<bar>m\<bar>)) - 53) (- 1074 - e));
          m' = round_shift m k;
          e' = e + int k
      in if 1024 < int (bit_length (nat \<bar>m'\<bar>)) + e'
         then (if m < 0 then NegInf else PosInf)
         else Finite m' e')"

fun fmul :: "pyfloat \<Rightarrow> pyfloat \<Rightarrow> pyfloat" where
  "fmul NaN _ = NaN"
| "fmul _ NaN = NaN"
| "fmul (Finite m1 e1) (Finite m2 e2) = fround (m1 * m2) (e1 + e2)"
| "fmul (Finite m e) PosInf = (if m = 0 then NaN else if m < 0 then NegInf else PosInf)"
| "fmul (Finite m e) NegInf = (if m = 0 then NaN else if m < 0 then PosInf else NegInf)"
| "fmul PosInf (Finite m e) = (if m = 0 then NaN else if m < 0 then NegInf else PosInf)"
| "fmul NegInf (Finite m e) = (if m = 0 then NaN else if m < 0 then PosInf else NegInf)"
| "fmul PosInf PosInf = PosInf"
| "fmul NegInf NegInf = PosInf"
| "fmul PosInf NegInf = NegInf"
| "fmul NegInf PosInf = NegInf"

fun fsub :: "pyfloat \<Rightarrow> pyfloat \<Rightarrow> pyfloat" where
  "fsub NaN _ = NaN"
| "fsub _ NaN = NaN"
| "fsub (Finite m1 e1) (Finite m2 e2) =
     (let e = min e1 e2
      in fround (m1 * 2 ^ nat (e1 - e) - m2 * 2 ^ nat (e2 - e)) e)"
| "fsub (Finite m e) PosInf = NegInf"
| "fsub (Finite m e) NegInf = PosInf"
| "fsub PosInf PosInf = NaN"
| "fsub NegInf NegInf = NaN"
| "fsub PosInf _ = PosInf"
| "fsub NegInf _ = NegInf"

text \<open>\<open>int(x)\<close> of a float: truncation towards zero; it raises on a NaN or an infinity.\<close>

definition py_int :: "pyfloat \<Rightarrow> exn + int" where
  "py_int x =
     (case x of
        Finite m e \<Rightarrow>
          Inr (if 0 \<le> e then m * 2 ^ nat e else sgn m * (\<bar>m\<bar> div 2 ^ nat (- e)))
      | NaN \<Rightarrow> Inl (Exn ValueError ''cannot convert float NaN to integer'')
      | _ \<Rightarrow> Inl (Exn OverflowError ''cannot convert float infinity to integer''))"

definition ftruthy :: "pyfloat \<Rightarrow> bool" where
  "ftruthy x = (case x of Finite m e \<Rightarrow> m \<noteq> 0 | _ \<Rightarrow> True)"

subsection \<open>JSON values and Python's operations on them\<close>

text \<open>
  The values a decoded JSON body and a request payload are made of. \<open>JNull\<close> is Python's
  \<open>None\<close>. A dict is an association list whose first binding of a key is the one looked up.
\<close>

datatype json =
    JNull | JBool bool | JInt int | JFloat pyfloat | JStr string
  | JArr "json list" | JObj "(string \<times> json) list"

fun truthy :: "json \<Rightarrow> bool" where
  "truthy JNull = False"
| "truthy (JBool b) = b"
| "truthy (JInt i) = (i \<noteq> 0)"
| "truthy (JFloat x) = ftruthy x"
| "truthy (JStr s) = (s \<noteq> [])"
| "truthy (JArr xs) = (xs \<noteq> [])"
| "truthy (JObj kvs) = (kvs \<noteq> [])"

fun is_prefix :: "string \<Rightarrow> string \<Rightarrow> bool" where
  "is_prefix [] ys = True"
| "is_prefix (x # xs) [] = False"
| "is_prefix (x # xs) (y # ys) = (x = y \<and> is_prefix xs ys)"

fun is_substring :: "string \<Rightarrow> string \<Rightarrow> bool" where
  "is_substring xs [] = (xs = [])"
| "is_substring xs (y # ys) = (is_prefix xs (y # ys) \<or> is_substring xs ys)"

text \<open>\<open>key in v\<close> for a string \<open>key\<close>: membership in a dict's keys, in a list's elements,
  substring of a string; any other value is not iterable.\<close>

fun py_in :: "string \<Rightarrow> json \<Rightarrow> exn + bool" where
  "py_in key (JObj kvs) = Inr (map_of kvs key \<noteq> None)"
| "py_in key (JArr xs) = Inr (JStr key \<in> set xs)"
| "py_in key (JStr s) = Inr (is_substring key s)"
| "py_in key _ = Inl (Exn TypeError ''argument is not iterable'')"

text \<open>\<open>v[key]\<close> for a string \<open>key\<close>: only a dict is subscriptable by a string.\<close>

fun py_getitem :: "json \<Rightarrow> string \<Rightarrow> exn + json" where
  "py_getitem (JObj kvs) key =
     (case map_of kvs key of Some v \<Rightarrow> Inr v | None \<Rightarrow> Inl (Exn KeyError key))"
| "py_getitem _ key = Inl (Exn TypeError ''indices must be integers'')"

subsection \<open>Strings\<close>

text \<open>\<open>str.upper\<close> and \<open>str.lower\<close> on ASCII text; other characters are left as they are.\<close>

definition upper_char :: "char \<Rightarrow> char" where
  "upper_char c =
     (case map_of (zip ''abcdefghijklmnopqrstuvwxyz'' ''ABCDEFGHIJKLMNOPQRSTUVWXYZ'') c of
        Some u \<Rightarrow> u | None \<Rightarrow> c)"

definition lower_char :: "char \<Rightarrow> char" where
  "lower_char c =
     (case map_of (zip ''ABCDEFGHIJKLMNOPQRSTUVWXYZ'' ''abcdefghijklmnopqrstuvwxyz'') c of
        Some l \<Rightarrow> l | None \<Rightarrow> c)"

definition upper :: "string \<Rightarrow> string" where
  "upper s = map upper_char s"

definition lower :: "string \<Rightarrow> string" where
  "lower s = map lower_char s"


section \<open>The world around the client\<close>

subsection \<open>Log records\<close>

text \<open>
  A log record is its level, the constant text of the message and the values formatted into
  it, in order. The pictograms of the source's messages are left out of the text, and so are
  values whose text only the runtime knows (a traceback, a response's raw text).
\<close>

datatype level = DEBUG | INFO | WARNING | ERROR

type_synonym log_entry = "level \<times> string \<times> json list"

subsection \<open>HTTP\<close>

datatype http_method = POST | PATCH

record http_request =
  rq_method :: http_method
  rq_url :: string
  rq_json :: json
  rq_headers :: "(string \<times> string) list"
  rq_timeout :: nat

text \<open>A response: its status code and its body decoded as JSON, \<open>None\<close> when the body is
  not JSON (\<open>response.json()\<close> then raises a \<open>ValueError\<close>).\<close>

record http_response =
  status_code :: int
  body_json :: "json option"

datatype http_outcome = Raises exn | Responds http_response

subsection \<open>What the client cannot decide\<close>

text \<open>
  \<open>net k rq\<close> is what happens to the request \<open>rq\<close> when \<open>k\<close> requests were sent before it;
  \<open>clock k\<close> and \<open>utcnow k\<close> are \<open>time.time()\<close> and \<open>datetime.utcnow().isoformat()\<close> when
  the clock was read \<open>k\<close> times before. \<open>int_of_str\<close> is Python's \<open>int\<close> on a string
  (\<open>None\<close> where it raises a \<open>ValueError\<close>) and \<open>str_of\<close> is \<open>str\<close> on a value that is not
  a string.
\<close>

record outside =
  net :: "nat \<Rightarrow> http_request \<Rightarrow> http_outcome"
  clock :: "nat \<Rightarrow> pyfloat"
  utcnow :: "nat \<Rightarrow> string"
  int_of_str :: "string \<Rightarrow> int option"
  str_of :: "json \<Rightarrow> string"

record world =
  w_log :: "log_entry list"
  w_sent :: "http_request list"
  w_ticks :: nat

section \<open>The tracking client (utils/api_helper.py)\<close>

record test_result =
  tr_name :: string
  tr_status :: string
  tr_duration :: pyfloat
  tr_error_message :: "string option"

record api_helper =
  is_jenkins :: bool
  api_base_url :: string
  api_token :: string
  job_name :: string
  build_number :: string
  build_url :: string
  git_branch :: string
  git_commit :: string
  org_id :: string
  created_by :: string
  pipeline_run_id :: json
  test_results :: "test_result list"
  suite_start_time :: "pyfloat option"
  api_call_count :: "(string \<times> nat) list"

definition getenv :: "(string \<rightharpoonup> string) \<Rightarrow> string \<Rightarrow> string \<Rightarrow> string" where
  "getenv env k d = (case env k of Some v \<Rightarrow> v | None \<Rightarrow> d)"

definition init :: "(string \<rightharpoonup> string) \<Rightarrow> api_helper" where
  "init env =
     \<lparr> is_jenkins = (env ''JENKINS_HOME'' \<noteq> None \<or> env ''BUILD_NUMBER'' \<noteq> None),
       api_base_url = getenv env ''API_BASE_URL'' ''https://unsobering-maribeth-hokey.ngrok-free.dev'',
       api_token = getenv env ''API_TOKEN'' ''your-api-token-here'',
       job_name = getenv env ''JOB_NAME'' ''Unknown Job'',
       build_number = getenv env ''BUILD_NUMBER'' ''0'',
       build_url = getenv env ''BUILD_URL'' [],
       git_branch = getenv env ''GIT_BRANCH'' ''main'',
       git_commit = getenv env ''GIT_COMMIT'' ''unknown'',
       org_id = getenv env ''ORG_ID'' ''374060a8-925c-49aa-8495-8a823949f3e0'',
       created_by = getenv env ''CREATED_BY'' ''c9279b2d-701c-48eb-9122-fbeae465771c'',
       pipeline_run_id = JNull,
       test_results = [],
       suite_start_time = None,
       api_call_count = [(''api-1'', 0), (''api-3'', 0), (''api-4'', 0)] \<rparr>"

subsection \<open>Statements: a state of the client and the world, and a value or an exception\<close>

type_synonym state = "api_helper \<times> world"

type_synonym 'a prog = "state \<Rightarrow> (exn + 'a) \<times> state"

definition ret :: "'a \<Rightarrow> 'a prog" where
  "ret x = (\<lambda>s. (Inr x, s))"

definition throw :: "exn \<Rightarrow> 'a prog" where
  "throw e = (\<lambda>s. (Inl e, s))"

definition lift :: "exn + 'a \<Rightarrow> 'a prog" where
  "lift r = (\<lambda>s. (r, s))"

definition bnd :: "'a prog \<Rightarrow> ('a \<Rightarrow> 'b prog) \<Rightarrow> 'b prog" where
  "bnd m f = (\<lambda>s. case m s of (Inl e, s') \<Rightarrow> (Inl e, s') | (Inr x, s') \<Rightarrow> f x s')"

definition seq :: "unit prog \<Rightarrow> 'a prog \<Rightarrow> 'a prog" where
  "seq m n = bnd m (\<lambda>_. n)"

text \<open>\<open>try: m except Exception as e: h e\<close>; what \<open>m\<close> did to the state before it raised stays.\<close>

definition try_except :: "'a prog \<Rightarrow> (exn \<Rightarrow> 'a prog) \<Rightarrow> 'a prog" where
  "try_except m h = (\<lambda>s. case m s of (Inl e, s') \<Rightarrow> h e s' | (Inr x, s') \<Rightarrow> (Inr x, s'))"

definition get_self :: "api_helper prog" where
  "get_self = (\<lambda>s. (Inr (fst s), s))"

definition set_self :: "(api_helper \<Rightarrow> api_helper) \<Rightarrow> unit prog" where
  "set_self f = (\<lambda>s. (Inr (), (f (fst s), snd s)))"

definition logger :: "level \<Rightarrow> string \<Rightarrow> json list \<Rightarrow> unit prog" where
  "logger lvl msg args =
     (\<lambda>s. (Inr (), (fst s, (snd s)\<lparr>w_log := w_log (snd s) @ [(lvl, msg, args)]\<rparr>)))"

definition time_time :: "outside \<Rightarrow> pyfloat prog" where
  "time_time orc =
     (\<lambda>s. (Inr (clock orc (w_ticks (snd s))),
            (fst s, (snd s)\<lparr>w_ticks := Suc (w_ticks (snd s))\<rparr>)))"

definition utcnow_isoformat :: "outside \<Rightarrow> string prog" where
  "utcnow_isoformat orc =
     (\<lambda>s. (Inr (utcnow orc (w_ticks (snd s))),
            (fst s, (snd s)\<lparr>w_ticks := Suc (w_ticks (snd s))\<rparr>)))"

text \<open>\<open>requests.post\<close> and \<open>requests.patch\<close>: the request leaves, then the network answers
  or the call raises.\<close>

definition requests_send :: "outside \<Rightarrow> http_request \<Rightarrow> http_response prog" where
  "requests_send orc rq =
     (\<lambda>s. let w = snd s; w' = w\<lparr>w_sent := w_sent w @ [rq]\<rparr>
           in case net orc (length (w_sent w)) rq of
                Raises e \<Rightarrow> (Inl e, (fst s, w'))
              | Responds r \<Rightarrow> (Inr r, (fst s, w')))"

definition response_json :: "http_response \<Rightarrow> json prog" where
  "response_json r =
     (case body_json r of
        Some j \<Rightarrow> ret j
      | None \<Rightarrow> throw (Exn ValueError ''Expecting value''))"

definition banner :: string where
  "banner = replicate 63 (CHR ''='')"

definition py_str :: "outside \<Rightarrow> json \<Rightarrow> string" where
  "py_str orc v = (case v of JStr s \<Rightarrow> s | _ \<Rightarrow> str_of orc v)"

subsection \<open>The two request helpers\<close>

definition request_headers :: "api_helper \<Rightarrow> (string \<times> string) list" where
  "request_headers h =
     [(''Content-Type'', ''application/json''),
      (''Authorization'', ''Bearer '' @ api_token h),
      (''ngrok-skip-browser-warning'', ''true'')]"

text \<open>The request both helpers build: the URL, the JSON body, the three headers and the
  timeout of 30 seconds.\<close>

definition mk_request :: "api_helper \<Rightarrow> http_method \<Rightarrow> string \<Rightarrow> json \<Rightarrow> http_request" where
  "mk_request h method endpoint payload =
     \<lparr> rq_method = method, rq_url = api_base_url h @ endpoint, rq_json = payload,
       rq_headers = request_headers h, rq_timeout = 30 \<rparr>"

definition post_request_body :: "outside \<Rightarrow> string \<Rightarrow> json \<Rightarrow> json prog" where
  "post_request_body orc endpoint payload =
     bnd get_self (\<lambda>h.
     bnd (requests_send orc (mk_request h POST endpoint payload)) (\<lambda>response.
     if status_code response \<in> {200, 201} then response_json response
     else seq (logger WARNING ''POST {} returned status: {}''
                 [JStr endpoint, JInt (status_code response)])
         (seq (logger DEBUG ''    Response: {}'' [])
              (ret JNull))))"

definition post_request :: "outside \<Rightarrow> string \<Rightarrow> json \<Rightarrow> json prog" where
  "post_request orc endpoint payload =
     try_except (post_request_body orc endpoint payload) (\<lambda>e.
       if exn_cls e = Timeout then
         seq (logger ERROR ''POST request timeout: {}'' [JStr endpoint]) (ret JNull)
       else if exn_cls e = ConnectionError then
         bnd get_self (\<lambda>h.
         seq (logger ERROR ''Connection error: {}'' [JStr endpoint])
        (seq (logger ERROR ''    Check if API is accessible at: {}'' [JStr (api_base_url h)])
             (ret JNull)))
       else
         seq (logger ERROR ''POST request failed: {}'' [JStr (exn_msg e)]) (ret JNull))"

definition patch_request_body :: "outside \<Rightarrow> string \<Rightarrow> json \<Rightarrow> bool prog" where
  "patch_request_body orc endpoint payload =
     bnd get_self (\<lambda>h.
     bnd (requests_send orc (mk_request h PATCH endpoint payload)) (\<lambda>response.
     if status_code response \<in> {200, 204} then ret True
     else seq (logger WARNING ''PATCH {} returned status: {}''
                 [JStr endpoint, JInt (status_code response)])
         (seq (logger DEBUG ''    Response: {}'' [])
              (ret False))))"

definition patch_request :: "outside \<Rightarrow> string \<Rightarrow> json \<Rightarrow> bool prog" where
  "patch_request orc endpoint payload =
     try_except (patch_request_body orc endpoint payload) (\<lambda>e.
       if exn_cls e = Timeout then
         seq (logger ERROR ''PATCH request timeout: {}'' [JStr endpoint]) (ret False)
       else if exn_cls e = ConnectionError then
         seq (logger ERROR ''Connection error: {}'' [JStr endpoint]) (ret False)
       else
         seq (logger ERROR ''PATCH request failed: {}'' [JStr (exn_msg e)]) (ret False))"

text \<open>\<open>self.api_call_count[key] += 1\<close>\<close>

definition count_call :: "string \<Rightarrow> unit prog" where
  "count_call key =
     bnd get_self (\<lambda>h.
     case map_of (api_call_count h) key of
       None \<Rightarrow> throw (Exn KeyError key)
     | Some n \<Rightarrow> set_self (\<lambda>h. h\<lparr>api_call_count := AList.update key (n + 1) (api_call_count h)\<rparr>))"

definition get_count :: "string \<Rightarrow> nat prog" where
  "get_count key =
     bnd get_self (\<lambda>h.
     case map_of (api_call_count h) key of
       None \<Rightarrow> throw (Exn KeyError key)
     | Some n \<Rightarrow> ret n)"

subsection \<open>before_all_tests\<close>

definition int_of_build_number :: "outside \<Rightarrow> string \<Rightarrow> exn + int" where
  "int_of_build_number orc s =
     (case int_of_str orc s of
        Some n \<Rightarrow> Inr n
      | None \<Rightarrow> Inl (Exn ValueError ''invalid literal for int() with base 10''))"

definition create_payload :: "api_helper \<Rightarrow> int \<Rightarrow> string \<Rightarrow> json" where
  "create_payload h bn now =
     JObj [(''name'', JStr (job_name h @ '' - Build #'' @ build_number h)),
           (''repo_name'', JStr ''Python-Pylenium-Web''),
           (''environment'', JStr ''qa''),
           (''org'', JStr (org_id h)),
           (''created_by'', JStr (created_by h)),
           (''build_number'', JInt bn),
           (''build_url'', JStr (build_url h)),
           (''git_branch'', JStr (git_branch h)),
           (''git_commit'', JStr (git_commit h)),
           (''status'', JStr ''running''),
           (''started_at'', JStr (now @ ''Z''))]"

text \<open>The statements that read the response of the create call (lines 106 to 121).\<close>

definition read_run_id :: "json \<Rightarrow> unit prog" where
  "read_run_id response =
     bnd (if truthy response then lift (py_in ''pipeline_run'' response) else ret False)
       (\<lambda>found.
     if found then
       bnd (lift (py_getitem response ''pipeline_run'')) (\<lambda>pipeline_run.
       bnd (lift (py_in ''run_id'' pipeline_run)) (\<lambda>has_id.
       if has_id then
         bnd (lift (py_getitem pipeline_run ''run_id'')) (\<lambda>rid.
         seq (set_self (\<lambda>h. h\<lparr>pipeline_run_id := rid\<rparr>))
        (seq (count_call ''api-1'')
        (seq (logger INFO [] [])
        (seq (logger INFO ''API-1 SUCCESS: Pipeline Run Created'' [])
        (bnd get_self (\<lambda>h.
         seq (logger INFO ''Pipeline Run ID: {}'' [pipeline_run_id h])
        (seq (logger INFO ''Build: #{}'' [JStr (build_number h)])
             (logger INFO ''Branch: {}'' [JStr (git_branch h)]))))))))
       else
         seq (logger ERROR ''API-1 ERROR: run_id not found in pipeline_run'' [])
             (logger ERROR ''    Response: {}'' [response])))
     else
       seq (logger ERROR ''API-1 ERROR: Invalid response structure'' [])
           (logger ERROR ''    Response: {}'' [response]))"

definition before_all_tests_body :: "outside \<Rightarrow> unit prog" where
  "before_all_tests_body orc =
     seq (logger INFO [] [])
    (seq (logger INFO banner [])
    (seq (logger INFO ''API-1: Creating Pipeline Run'' [])
    (seq (logger INFO banner [])
    (bnd get_self (\<lambda>h.
     bnd (lift (int_of_build_number orc (build_number h))) (\<lambda>bn.
     bnd (utcnow_isoformat orc) (\<lambda>now.
     seq (logger INFO ''Request: POST {}/api/pipeline-runs/'' [JStr (api_base_url h)])
    (bnd (post_request orc ''/api/pipeline-runs/'' (create_payload h bn now)) (\<lambda>response.
     seq (read_run_id response)
    (seq (logger INFO banner [])
         (logger INFO [] [])))))))))))"

definition before_all_tests :: "outside \<Rightarrow> unit prog" where
  "before_all_tests orc =
     bnd get_self (\<lambda>h.
     if \<not> is_jenkins h then
       seq (logger INFO ''Local run detected - Skipping API calls'' [])
           (logger INFO ''    To enable API calls, set BUILD_NUMBER environment variable'' [])
     else
       bnd (time_time orc) (\<lambda>t.
       seq (set_self (\<lambda>h. h\<lparr>suite_start_time := Some t\<rparr>))
           (try_except (before_all_tests_body orc) (\<lambda>e.
              seq (logger ERROR ''API-1 ERROR: {}'' [JStr (exn_msg e)])
                  (logger ERROR ''    Traceback: {}'' [])))))"

subsection \<open>after_each_test\<close>

definition status_emoji :: "string \<Rightarrow> string" where
  "status_emoji status =
     (if status = ''passed'' then ''check mark''
      else if status = ''failed'' then ''cross mark''
      else ''circled slash'')"

definition json_of_opt :: "string option \<Rightarrow> json" where
  "json_of_opt m = (case m of None \<Rightarrow> JNull | Some s \<Rightarrow> JStr s)"

definition test_case_payload ::
  "api_helper \<Rightarrow> string \<Rightarrow> string \<Rightarrow> string option \<Rightarrow> int \<Rightarrow> string \<Rightarrow> string \<Rightarrow> json" where
  "test_case_payload h test_name status error_message duration_ms t1 t2 =
     JObj [(''run'', pipeline_run_id h),
           (''name'', JStr test_name),
           (''status'', JStr (lower status)),
           (''error_message'', json_of_opt error_message),
           (''duration'', JInt duration_ms),
           (''started_at'', JStr (t1 @ ''Z'')),
           (''completed_at'', JStr (t2 @ ''Z''))]"

text \<open>The statements after the call that creates the test case (lines 178 to 182).\<close>

definition note_created :: "int \<Rightarrow> json \<Rightarrow> unit prog" where
  "note_created duration_ms response =
     (if truthy response then
        seq (count_call ''api-3'')
            (logger INFO ''    API-3: Test case created - {}ms'' [JInt duration_ms])
      else
        logger WARNING ''    API-3: Failed to create test case'' [])"

definition after_each_test_body ::
  "outside \<Rightarrow> string \<Rightarrow> string \<Rightarrow> pyfloat \<Rightarrow> string option \<Rightarrow> unit prog" where
  "after_each_test_body orc test_name status duration error_message =
     bnd (lift (py_int (fmul duration (Finite 1000 0)))) (\<lambda>duration_ms.
     bnd get_self (\<lambda>h.
     bnd (utcnow_isoformat orc) (\<lambda>t1.
     bnd (utcnow_isoformat orc) (\<lambda>t2.
     bnd (post_request orc ''/api/test-cases/''
            (test_case_payload h test_name status error_message duration_ms t1 t2))
         (note_created duration_ms)))))"

definition after_each_test ::
  "outside \<Rightarrow> string \<Rightarrow> string \<Rightarrow> pyfloat \<Rightarrow> string option \<Rightarrow> unit prog" where
  "after_each_test orc test_name status duration error_message =
     seq (set_self (\<lambda>h. h\<lparr>test_results := test_results h @
            [\<lparr> tr_name = test_name, tr_status = upper status, tr_duration = duration,
               tr_error_message = error_message \<rparr>]\<rparr>))
    (seq (logger INFO ''{} {} | {} ({:.2f}s)''
            [JStr (status_emoji status), JStr test_name, JStr (upper status), JFloat duration])
    (bnd get_self (\<lambda>h.
     if \<not> is_jenkins h \<or> \<not> truthy (pipeline_run_id h) then ret ()
     else
       try_except (after_each_test_body orc test_name status duration error_message) (\<lambda>e.
         seq (logger ERROR ''API-3 ERROR: {}'' [JStr (exn_msg e)])
             (logger DEBUG ''    Traceback: {}'' [])))))"

subsection \<open>after_all_tests and the two summaries\<close>

text \<open>\<open>sum(1 for t in self.test_results if t['status'] == s)\<close>\<close>

definition count_status :: "string \<Rightarrow> test_result list \<Rightarrow> int" where
  "count_status s rs = sum_list (map (\<lambda>t. 1) (filter (\<lambda>t. tr_status t = s) rs))"

definition print_summary :: "unit prog" where
  "print_summary =
     bnd get_self (\<lambda>h.
     if test_results h = [] then ret ()
     else
       let passed = count_status ''PASSED'' (test_results h);
           failed = count_status ''FAILED'' (test_results h);
           skipped = count_status ''SKIPPED'' (test_results h);
           total = int (length (test_results h))
       in seq (logger INFO [] [])
         (seq (logger INFO banner [])
         (seq (logger INFO ''Test Execution Summary'' [])
         (seq (logger INFO banner [])
         (seq (logger INFO ''Total: {} | {} | {} | {}''
                 [JInt total, JInt passed, JInt failed, JInt skipped])
              (logger INFO banner []))))))"

definition print_api_summary :: "unit prog" where
  "print_api_summary =
     seq (logger INFO [] [])
    (seq (logger INFO banner [])
    (seq (logger INFO ''API Integration Summary'' [])
    (seq (logger INFO banner [])
    (bnd (get_count ''api-1'') (\<lambda>c1.
     seq (logger INFO ''API-1 (Create Pipeline): {} call(s)'' [JInt (int c1)])
    (bnd (get_count ''api-3'') (\<lambda>c3.
     seq (logger INFO ''API-3 (Create Test Case): {} call(s)'' [JInt (int c3)])
    (bnd (get_count ''api-4'') (\<lambda>c4.
     seq (logger INFO ''API-4 (Update Pipeline): {} call(s)'' [JInt (int c4)])
    (bnd get_self (\<lambda>h.
     seq (logger INFO ''Total API Calls: {}''
            [JInt (int (sum_list (map snd (api_call_count h))))])
    (seq (logger INFO banner [])
         (logger INFO [] [])))))))))))))"

text \<open>\<open>(time.time() - self.suite_start_time) if self.suite_start_time else 0\<close>: a float, or
  the integer 0 when no start time is set (or it is 0.0).\<close>

definition total_duration_of :: "outside \<Rightarrow> json prog" where
  "total_duration_of orc =
     bnd get_self (\<lambda>h.
     case suite_start_time h of
       None \<Rightarrow> ret (JInt 0)
     | Some st \<Rightarrow>
         if ftruthy st then bnd (time_time orc) (\<lambda>now. ret (JFloat (fsub now st)))
         else ret (JInt 0))"

text \<open>\<open>int(total_duration * 1000)\<close>\<close>

definition millis :: "json \<Rightarrow> exn + int" where
  "millis d =
     (case d of
        JFloat x \<Rightarrow> py_int (fmul x (Finite 1000 0))
      | JInt i \<Rightarrow> Inr (i * 1000)
      | _ \<Rightarrow> Inl (Exn TypeError ''unsupported operand''))"

definition overall_status_of :: "int \<Rightarrow> string" where
  "overall_status_of failed_count = (if 0 < failed_count then ''failed'' else ''passed'')"

definition update_payload :: "string \<Rightarrow> string \<Rightarrow> int \<Rightarrow> int \<Rightarrow> int \<Rightarrow> int \<Rightarrow> json" where
  "update_payload overall_status now total_count passed_count failed_count duration_ms =
     JObj [(''status'', JStr overall_status),
           (''completed_at'', JStr (now @ ''Z'')),
           (''total_tests'', JInt total_count),
           (''passed_tests'', JInt passed_count),
           (''failed_tests'', JInt failed_count),
           (''duration'', JInt duration_ms)]"

text \<open>The statements after the call that updates the run (lines 230 to 244).\<close>

definition note_updated ::
  "json \<Rightarrow> int \<Rightarrow> int \<Rightarrow> int \<Rightarrow> int \<Rightarrow> int \<Rightarrow> string \<Rightarrow> bool \<Rightarrow> unit prog" where
  "note_updated total_duration duration_ms total_count passed_count failed_count skipped_count
      overall_status success =
     seq (if success then
            seq (count_call ''api-4'')
           (seq (logger INFO [] [])
           (seq (logger INFO ''API-4 SUCCESS: Pipeline Run Updated'' [])
           (seq (logger INFO ''Total: {} | {} | {} | {}''
                   [JInt total_count, JInt passed_count, JInt failed_count,
                    JInt skipped_count])
           (seq (logger INFO ''Duration: {:.2f}s ({}ms)'' [total_duration, JInt duration_ms])
                (logger INFO ''Status: {}'' [JStr (upper overall_status)])))))
          else
            logger ERROR ''API-4 ERROR: Failed to update pipeline run'' [])
    (seq (logger INFO banner [])
    (seq (logger INFO [] [])
         print_api_summary))"

definition after_all_tests_body :: "outside \<Rightarrow> unit prog" where
  "after_all_tests_body orc =
     seq (logger INFO [] [])
    (seq (logger INFO banner [])
    (seq (logger INFO ''API-4: Updating Pipeline Run'' [])
    (seq (logger INFO banner [])
    (bnd (total_duration_of orc) (\<lambda>total_duration.
     bnd get_self (\<lambda>h.
     let passed_count = count_status ''PASSED'' (test_results h);
         failed_count = count_status ''FAILED'' (test_results h);
         skipped_count = count_status ''SKIPPED'' (test_results h);
         total_count = int (length (test_results h));
         overall_status = overall_status_of failed_count
     in
     bnd (utcnow_isoformat orc) (\<lambda>now.
     bnd (lift (millis total_duration)) (\<lambda>duration_ms.
     seq (logger INFO ''Request: PATCH /api/pipeline-runs/{}/'' [pipeline_run_id h])
    (bnd (patch_request orc
            (''/api/pipeline-runs/'' @ py_str orc (pipeline_run_id h) @ ''/'')
            (update_payload overall_status now total_count passed_count failed_count
               duration_ms))
         (note_updated total_duration duration_ms total_count passed_count failed_count
            skipped_count overall_status))))))))))"

definition after_all_tests :: "outside \<Rightarrow> unit prog" where
  "after_all_tests orc =
     bnd get_self (\<lambda>h.
     if \<not> is_jenkins h \<or> \<not> truthy (pipeline_run_id h) then print_summary
     else
       try_except (after_all_tests_body orc) (\<lambda>e.
         seq (logger ERROR ''API-4 ERROR: {}'' [JStr (exn_msg e)])
             (logger ERROR ''    Traceback: {}'' [])))"

subsection \<open>A session, as the hooks of conftest.py drive the client\<close>

text \<open>
  \<open>pytest_runtest_makereport\<close> turns the report of a test's call phase into the status and
  the error message it hands to \<open>after_each_test\<close>; the report's outcome is a string
  (\<open>rep.passed\<close> is \<open>outcome == "passed"\<close>, and so on).
\<close>

record test_report =
  rep_name :: string
  rep_outcome :: string
  rep_duration :: pyfloat
  rep_longrepr :: "string option"

definition longrepr_or :: "string option \<Rightarrow> string \<Rightarrow> string" where
  "longrepr_or l d = (case l of None \<Rightarrow> d | Some s \<Rightarrow> if s = [] then d else s)"

definition report_status :: "test_report \<Rightarrow> string \<times> string option" where
  "report_status rep =
     (if rep_outcome rep = ''passed'' then (''passed'', None)
      else if rep_outcome rep = ''failed''
        then (''failed'', Some (longrepr_or (rep_longrepr rep) ''Test failed''))
      else if rep_outcome rep = ''skipped''
        then (''skipped'', Some (longrepr_or (rep_longrepr rep) ''Test skipped''))
      else (''unknown'', None))"

definition record_report :: "outside \<Rightarrow> test_report \<Rightarrow> unit prog" where
  "record_report orc rep =
     after_each_test orc (rep_name rep) (fst (report_status rep)) (rep_duration rep)
       (snd (report_status rep))"

fun record_reports :: "outside \<Rightarrow> test_report list \<Rightarrow> unit prog" where
  "record_reports orc [] = ret ()"
| "record_reports orc (rep # reps) = seq (record_report orc rep) (record_reports orc reps)"

definition session :: "outside \<Rightarrow> test_report list \<Rightarrow> unit prog" where
  "session orc reps =
     seq (before_all_tests orc) (seq (record_reports orc reps) (after_all_tests orc))"

definition fresh_world :: world where
  "fresh_world = \<lparr> w_log = [], w_sent = [], w_ticks = 0 \<rparr>"

section \<open>The logger provider (utils/logger.py)\<close>

text \<open>
  The \<open>logging\<close> module keeps one logger per name; a logger made by \<open>logging.getLogger\<close>
  has no level and no handlers. A handler is made bare, then given its level and its
  formatter. The day in the file's name, and whether \<open>os.makedirs\<close> and the opening of the
  file fail, are given from outside at each call.
\<close>

datatype handler_kind = FileHandler string | StreamHandler

record handler =
  hd_kind :: handler_kind
  hd_level :: "level option"
  hd_formatter :: "string option"

record py_logger =
  lg_level :: "level option"
  lg_handlers :: "handler list"

type_synonym registry = "string \<rightharpoonup> py_logger"

record log_outside =
  today :: string
  makedirs_error :: "exn option"
  open_error :: "exn option"

definition new_logger :: py_logger where
  "new_logger = \<lparr> lg_level = None, lg_handlers = [] \<rparr>"

definition logging_getLogger :: "string \<Rightarrow> registry \<Rightarrow> py_logger \<times> registry" where
  "logging_getLogger name reg =
     (case reg name of
        Some lg \<Rightarrow> (lg, reg)
      | None \<Rightarrow> (new_logger, reg(name \<mapsto> new_logger)))"

definition log_format :: string where
  "log_format = ''%(asctime)s - %(name)s - %(levelname)s - %(message)s''"

definition get_logger :: "log_outside \<Rightarrow> string \<Rightarrow> registry \<Rightarrow> (exn + py_logger) \<times> registry" where
  "get_logger out name reg =
     (let (logger, reg1) = logging_getLogger name reg
      in if lg_handlers logger \<noteq> [] then (Inr logger, reg1)
         else
           let logger1 = logger\<lparr>lg_level := Some INFO\<rparr>;
               reg2 = reg1(name \<mapsto> logger1)
           in case makedirs_error out of
                Some e \<Rightarrow> (Inl e, reg2)
              | None \<Rightarrow>
                 (case open_error out of
                    Some e \<Rightarrow> (Inl e, reg2)
                  | None \<Rightarrow>
                      let fh = \<lparr> hd_kind = FileHandler (''logs/'' @ name @ ''_'' @ today out @ ''.log''),
                                  hd_level = None, hd_formatter = None \<rparr>;
                          fh = fh\<lparr>hd_level := Some INFO\<rparr>;
                          ch = \<lparr> hd_kind = StreamHandler, hd_level = None, hd_formatter = None \<rparr>;
                          ch = ch\<lparr>hd_level := Some INFO\<rparr>;
                          fh = fh\<lparr>hd_formatter := Some log_format\<rparr>;
                          ch = ch\<lparr>hd_formatter := Some log_format\<rparr>;
                          logger2 = logger1\<lparr>lg_handlers := lg_handlers logger1 @ [fh]\<rparr>;
                          logger3 = logger2\<lparr>lg_handlers := lg_handlers logger2 @ [ch]\<rparr>
                      in (Inr logger3, reg2(name \<mapsto> logger3))))"

text \<open>Further calls for the same name, one after the other; the results are kept in order.\<close>

fun get_logger_again ::
  "log_outside list \<Rightarrow> string \<Rightarrow> registry \<Rightarrow> (exn + py_logger) list \<times> registry" where
  "get_logger_again [] name reg = ([], reg)"
| "get_logger_again (out # outs) name reg =
     (let (r, reg1) = get_logger out name reg;
          (rs, reg2) = get_logger_again outs name reg1
      in (r # rs, reg2))"

section \<open>Screenshot on failure (utils/screenshot.py)\<close>

text \<open>
  A fixture value is a browser session or some other value. What the function leaves behind:
  the directories made, the screenshot files written, the report's \<open>extra\<close> attribute
  (\<open>None\<close> while the report has none) and the attachments. The time stamp and the failure of
  each step that can fail are given from outside.
\<close>

datatype fixture = Browser | Plain json

record test_item =
  item_name :: string
  funcargs :: "string \<rightharpoonup> fixture"

record shot_outside =
  so_now :: string
  so_makedirs :: "exn option"
  so_screenshot :: "exn option"
  so_import :: "exn option"
  so_image :: "exn option"
  so_open :: "exn option"
  so_attach :: "exn option"

record shot_world =
  sw_dirs :: "string list"
  sw_files :: "string list"
  sw_extra :: "string list option"
  sw_attached :: "string list"

definition fixture_truthy :: "fixture option \<Rightarrow> bool" where
  "fixture_truthy f = (case f of None \<Rightarrow> False | Some Browser \<Rightarrow> True | Some (Plain v) \<Rightarrow> truthy v)"

definition fails :: "exn option \<Rightarrow> (shot_world \<Rightarrow> (exn + unit) \<times> shot_world)
    \<Rightarrow> shot_world \<Rightarrow> (exn + unit) \<times> shot_world" where
  "fails err rest w = (case err of Some e \<Rightarrow> (Inl e, w) | None \<Rightarrow> rest w)"

text \<open>The body of the \<open>try\<close> (lines 18 to 23).\<close>

definition attach_screenshot ::
  "shot_outside \<Rightarrow> string \<Rightarrow> string \<Rightarrow> shot_world \<Rightarrow> (exn + unit) \<times> shot_world" where
  "attach_screenshot out name path w =
     (let extra = (case sw_extra w of None \<Rightarrow> [] | Some xs \<Rightarrow> xs)
      in fails (so_import out)
        (fails (so_image out)
          (\<lambda>w. fails (so_open out)
            (fails (so_attach out)
              (\<lambda>w. (Inr (), w\<lparr>sw_attached := sw_attached w @ [name]\<rparr>)))
            (w\<lparr>sw_extra := Some (extra @ [path])\<rparr>))) w)"

text \<open>\<open>os.path.join\<close> of two components (POSIX): a second component that starts with
  the separator replaces the first.\<close>

definition os_path_join :: "string \<Rightarrow> string \<Rightarrow> string" where
  "os_path_join a b =
     (if b \<noteq> [] \<and> hd b = CHR ''/'' then b
      else if a = [] \<or> last a = CHR ''/'' then a @ b
      else a @ ''/'' @ b)"

text \<open>The function itself: the directory is made and the screenshot is taken before the
  \<open>try\<close>, whose handler does nothing.\<close>

definition save_screenshot_on_failure ::
  "shot_outside \<Rightarrow> test_item \<Rightarrow> shot_world \<Rightarrow> (exn + unit) \<times> shot_world" where
  "save_screenshot_on_failure out item w =
     (let py = funcargs item ''py''
      in if \<not> fixture_truthy py then (Inr (), w)
         else
           fails (so_makedirs out) (\<lambda>w.
             let w = w\<lparr>sw_dirs := sw_dirs w @ [''reports/screenshots'']\<rparr>;
                 name = item_name item @ ''_'' @ so_now out @ ''.png'';
                 path = os_path_join ''reports/screenshots'' name
             in (case py of
                   Some Browser \<Rightarrow>
                     fails (so_screenshot out) (\<lambda>w.
                       let w = w\<lparr>sw_files := sw_files w @ [path]\<rparr>
                       in case attach_screenshot out name path w of
                            (Inl e, w') \<Rightarrow> (Inr (), w')
                          | (Inr u, w') \<Rightarrow> (Inr (), w')) w
                 | _ \<Rightarrow> (Inl (Exn AttributeError ''screenshot''), w))) w)"

section \<open>Notions used in the statements\<close>

text \<open>A statement that raises in no state, and one that leaves a part of the state as it was.\<close>

definition never_raises :: "'a prog \<Rightarrow> bool" where
  "never_raises m = (\<forall>s. \<exists>x. fst (m s) = Inr x)"

definition keeps :: "(state \<Rightarrow> 'b) \<Rightarrow> 'a prog \<Rightarrow> bool" where
  "keeps p m = (\<forall>s. p (snd (m s)) = p s)"

definition ignores_world :: "(state \<Rightarrow> 'b) \<Rightarrow> bool" where
  "ignores_world p = (\<forall>h w w'. p (h, w') = p (h, w))"

text \<open>What \<open>_post_request\<close> and \<open>_patch_request\<close> return and log, by what the network did.\<close>

definition post_returns :: "http_outcome \<Rightarrow> json" where
  "post_returns out =
     (case out of
        Raises e \<Rightarrow> JNull
      | Responds r \<Rightarrow>
          if status_code r \<in> {200, 201}
          then (case body_json r of Some j \<Rightarrow> j | None \<Rightarrow> JNull)
          else JNull)"

definition post_logs :: "api_helper \<Rightarrow> string \<Rightarrow> http_outcome \<Rightarrow> log_entry list" where
  "post_logs h endpoint out =
     (case out of
        Raises e \<Rightarrow>
          if exn_cls e = Timeout then [(ERROR, ''POST request timeout: {}'', [JStr endpoint])]
          else if exn_cls e = ConnectionError then
            [(ERROR, ''Connection error: {}'', [JStr endpoint]),
             (ERROR, ''    Check if API is accessible at: {}'', [JStr (api_base_url h)])]
          else [(ERROR, ''POST request failed: {}'', [JStr (exn_msg e)])]
      | Responds r \<Rightarrow>
          if status_code r \<in> {200, 201}
          then (case body_json r of
                  Some j \<Rightarrow> []
                | None \<Rightarrow> [(ERROR, ''POST request failed: {}'', [JStr ''Expecting value''])])
          else [(WARNING, ''POST {} returned status: {}'', [JStr endpoint, JInt (status_code r)]),
                (DEBUG, ''    Response: {}'', [])])"

definition patch_returns :: "http_outcome \<Rightarrow> bool" where
  "patch_returns out =
     (case out of Raises e \<Rightarrow> False | Responds r \<Rightarrow> status_code r \<in> {200, 204})"

definition patch_logs :: "string \<Rightarrow> http_outcome \<Rightarrow> log_entry list" where
  "patch_logs endpoint out =
     (case out of
        Raises e \<Rightarrow>
          if exn_cls e = Timeout then [(ERROR, ''PATCH request timeout: {}'', [JStr endpoint])]
          else if exn_cls e = ConnectionError then
            [(ERROR, ''Connection error: {}'', [JStr endpoint])]
          else [(ERROR, ''PATCH request failed: {}'', [JStr (exn_msg e)])]
      | Responds r \<Rightarrow>
          if status_code r \<in> {200, 204} then []
          else [(WARNING, ''PATCH {} returned status: {}'', [JStr endpoint, JInt (status_code r)]),
                (DEBUG, ''    Response: {}'', [])])"

text \<open>A call that failed at the transport level: it raised, or its status is not one the
  helper for its method takes as success.\<close>

definition http_failure :: "http_request \<Rightarrow> http_outcome \<Rightarrow> bool" where
  "http_failure rq out =
     (case out of
        Raises e \<Rightarrow> True
      | Responds r \<Rightarrow>
          (case rq_method rq of
             POST \<Rightarrow> status_code r \<notin> {200, 201}
           | PATCH \<Rightarrow> status_code r \<notin> {200, 204}))"

text \<open>The identifier nested in a body: the value under \<open>run_id\<close> of the object under
  \<open>pipeline_run\<close>, if the body has both.\<close>

definition nested_run_id :: "json \<Rightarrow> json option" where
  "nested_run_id j =
     (case j of
        JObj kvs \<Rightarrow>
          (case map_of kvs ''pipeline_run'' of
             Some (JObj kvs') \<Rightarrow> map_of kvs' ''run_id''
           | _ \<Rightarrow> None)
      | _ \<Rightarrow> None)"

definition run_of :: "state \<Rightarrow> json \<times> bool" where
  "run_of s = (pipeline_run_id (fst s), is_jenkins (fst s))"

definition results_of :: "state \<Rightarrow> test_result list" where
  "results_of s = test_results (fst s)"

definition sent_of :: "state \<Rightarrow> http_request list" where
  "sent_of s = w_sent (snd s)"

text \<open>The record \<open>after_each_test\<close> stores for a report.\<close>

definition stored :: "test_report \<Rightarrow> test_result" where
  "stored rep =
     \<lparr> tr_name = rep_name rep, tr_status = upper (fst (report_status rep)),
       tr_duration = rep_duration rep, tr_error_message = snd (report_status rep) \<rparr>"

text \<open>The number of records of a list stored with a status.\<close>

definition tally :: "string \<Rightarrow> test_result list \<Rightarrow> int" where
  "tally s rs = int (length (filter (\<lambda>t. tr_status t = s) rs))"

text \<open>The real number a finite float stands for.\<close>

definition float_value :: "int \<Rightarrow> int \<Rightarrow> real" where
  "float_value m e = (if 0 \<le> e then of_int m * 2 ^ nat e else of_int m / 2 ^ nat (- e))"

text \<open>A part of the state that no log record and no reading of the clock changes.\<close>

definition ignores_log :: "(state \<Rightarrow> 'b) \<Rightarrow> bool" where
  "ignores_log p = (\<forall>h w l t. p (h, w\<lparr>w_log := l\<rparr>) = p (h, w) \<and> p (h, w\<lparr>w_ticks := t\<rparr>) = p (h, w))"

definition id_of :: "state \<Rightarrow> json" where
  "id_of s = pipeline_run_id (fst s)"

text \<open>The client makes no remote call in a state where this holds (lines 157 and 196).\<close>

definition local_only :: "api_helper \<Rightarrow> bool" where
  "local_only h = (\<not> is_jenkins h \<or> \<not> truthy (pipeline_run_id h))"

text \<open>The records the local paths write to the log.\<close>

definition summary_lines :: "test_result list \<Rightarrow> log_entry list" where
  "summary_lines rs =
     (if rs = [] then []
      else [(INFO, [], []), (INFO, banner, []), (INFO, ''Test Execution Summary'', []),
            (INFO, banner, []),
            (INFO, ''Total: {} | {} | {} | {}'',
               [JInt (int (length rs)), JInt (count_status ''PASSED'' rs),
                JInt (count_status ''FAILED'' rs), JInt (count_status ''SKIPPED'' rs)]),
            (INFO, banner, [])])"

definition local_notice :: "log_entry list" where
  "local_notice =
     [(INFO, ''Local run detected - Skipping API calls'', []),
      (INFO, ''    To enable API calls, set BUILD_NUMBER environment variable'', [])]"

definition report_line :: "test_report \<Rightarrow> log_entry" where
  "report_line rep =
     (INFO, ''{} {} | {} ({:.2f}s)'',
      [JStr (status_emoji (fst (report_status rep))), JStr (rep_name rep),
       JStr (upper (fst (report_status rep))), JFloat (rep_duration rep)])"

text \<open>The request that creates the run, what the network does to it, and what is logged
  up to the reading of its response.\<close>

definition create_request :: "outside \<Rightarrow> api_helper \<Rightarrow> world \<Rightarrow> int \<Rightarrow> http_request" where
  "create_request orc h w bn =
     mk_request h POST ''/api/pipeline-runs/''
       (create_payload h bn (utcnow orc (Suc (w_ticks w))))"

definition create_outcome :: "outside \<Rightarrow> api_helper \<Rightarrow> world \<Rightarrow> int \<Rightarrow> http_outcome" where
  "create_outcome orc h w bn = net orc (length (w_sent w)) (create_request orc h w bn)"

definition create_logs :: "outside \<Rightarrow> api_helper \<Rightarrow> world \<Rightarrow> int \<Rightarrow> log_entry list" where
  "create_logs orc h w bn =
     [(INFO, [], []), (INFO, banner, []), (INFO, ''API-1: Creating Pipeline Run'', []),
      (INFO, banner, []),
      (INFO, ''Request: POST {}/api/pipeline-runs/'', [JStr (api_base_url h)])] @
     post_logs h ''/api/pipeline-runs/'' (create_outcome orc h w bn)"

definition after_create :: "(exn + unit) \<times> state \<Rightarrow> (exn + unit) \<times> state" where
  "after_create r =
     (case r of
        (Inl e, (h, w)) \<Rightarrow>
          (Inr (), (h, w\<lparr>w_log := w_log w @
             [(ERROR, ''API-1 ERROR: {}'', [JStr (exn_msg e)]), (ERROR, ''    Traceback: {}'', [])]\<rparr>))
      | (Inr u, (h, w)) \<Rightarrow>
          (Inr (), (h, w\<lparr>w_log := w_log w @ [(INFO, banner, []), (INFO, [], [])]\<rparr>)))"

text \<open>A backend that answers every call with a success and a body holding a run identifier.\<close>

definition backend :: outside where
  "backend =
     \<lparr> net = (\<lambda>k rq. Responds
          \<lparr> status_code = (case rq_method rq of POST \<Rightarrow> 201 | PATCH \<Rightarrow> 200),
            body_json = Some (JObj [(''pipeline_run'', JObj [(''run_id'', JStr ''run-42'')])]) \<rparr>),
       clock = (\<lambda>k. if k = 0 then Finite 1000 0 else Finite 1003 0),
       utcnow = (\<lambda>k. ''2024-01-01T00:00:00''),
       int_of_str = (\<lambda>s. if s = ''7'' then Some 7 else None),
       str_of = (\<lambda>v. ''?'') \<rparr>"

text \<open>The request that records a test, the one that updates the run, and what the handlers
  of the two \<open>try\<close> blocks make of a result. \<open>total_duration_at\<close> is the elapsed time
  \<open>after_all_tests\<close> computes in a state, with the number of clock readings after it.\<close>

definition test_case_request ::
  "outside \<Rightarrow> api_helper \<Rightarrow> world \<Rightarrow> string \<Rightarrow> string \<Rightarrow> string option \<Rightarrow> int \<Rightarrow> http_request" where
  "test_case_request orc h w name status err ms =
     mk_request h POST ''/api/test-cases/''
       (test_case_payload h name status err ms (utcnow orc (w_ticks w))
          (utcnow orc (Suc (w_ticks w))))"

definition after_created :: "(exn + unit) \<times> state \<Rightarrow> (exn + unit) \<times> state" where
  "after_created r =
     (case r of
        (Inl e, (h, w)) \<Rightarrow>
          (Inr (), (h, w\<lparr>w_log := w_log w @
             [(ERROR, ''API-3 ERROR: {}'', [JStr (exn_msg e)]), (DEBUG, ''    Traceback: {}'', [])]\<rparr>))
      | (Inr u, (h, w)) \<Rightarrow> (Inr (), (h, w)))"

definition total_duration_at :: "outside \<Rightarrow> api_helper \<Rightarrow> world \<Rightarrow> json \<times> nat" where
  "total_duration_at orc h w =
     (case suite_start_time h of
        None \<Rightarrow> (JInt 0, w_ticks w)
      | Some st \<Rightarrow>
          if ftruthy st then (JFloat (fsub (clock orc (w_ticks w)) st), Suc (w_ticks w))
          else (JInt 0, w_ticks w))"

definition update_request :: "outside \<Rightarrow> api_helper \<Rightarrow> world \<Rightarrow> int \<Rightarrow> http_request" where
  "update_request orc h w ms =
     mk_request h PATCH (''/api/pipeline-runs/'' @ py_str orc (pipeline_run_id h) @ ''/'')
       (update_payload (overall_status_of (count_status ''FAILED'' (test_results h)))
          (utcnow orc (snd (total_duration_at orc h w)))
          (int (length (test_results h)))
          (count_status ''PASSED'' (test_results h))
          (count_status ''FAILED'' (test_results h))
          ms)"

definition after_updated :: "(exn + unit) \<times> state \<Rightarrow> (exn + unit) \<times> state" where
  "after_updated r =
     (case r of
        (Inl e, (h, w)) \<Rightarrow>
          (Inr (), (h, w\<lparr>w_log := w_log w @
             [(ERROR, ''API-4 ERROR: {}'', [JStr (exn_msg e)]), (ERROR, ''    Traceback: {}'', [])]\<rparr>))
      | (Inr u, (h, w)) \<Rightarrow> (Inr (), (h, w)))"

text \<open>The client itself. A float whose product with 1000 \<open>int\<close> converts. A call the client
  takes as a success: no exception, a status of the success set of its method and, for a
  POST, a JSON body that is truthy. A create call whose response holds a truthy run
  identifier. The status stored for a reported outcome, and the counter of test-case calls.\<close>

definition self_of :: "state \<Rightarrow> api_helper" where
  "self_of s = fst s"

definition converts :: "pyfloat \<Rightarrow> bool" where
  "converts x = (case py_int (fmul x (Finite 1000 0)) of Inl e \<Rightarrow> False | Inr ms \<Rightarrow> True)"

definition call_succeeds :: "http_request \<Rightarrow> http_outcome \<Rightarrow> bool" where
  "call_succeeds rq out =
     (case out of
        Raises e \<Rightarrow> False
      | Responds r \<Rightarrow>
          (case rq_method rq of
             POST \<Rightarrow> status_code r \<in> {200, 201} \<and>
                    (case body_json r of None \<Rightarrow> False | Some j \<Rightarrow> truthy j)
           | PATCH \<Rightarrow> status_code r \<in> {200, 204}))"

definition all_calls_succeed :: "outside \<Rightarrow> bool" where
  "all_calls_succeed orc = (\<forall>k rq. call_succeeds rq (net orc k rq))"

definition valid_run_id :: "http_outcome \<Rightarrow> bool" where
  "valid_run_id out =
     (case nested_run_id (post_returns out) of None \<Rightarrow> False | Some rid \<Rightarrow> truthy rid)"

definition status_of_outcome :: "string \<Rightarrow> string" where
  "status_of_outcome outcome =
     upper (if outcome = ''passed'' then ''passed''
            else if outcome = ''failed'' then ''failed''
            else if outcome = ''skipped'' then ''skipped''
            else ''unknown'')"

definition test_case_calls :: "state \<Rightarrow> nat option" where
  "test_case_calls s = map_of (api_call_count (fst s)) ''api-3''"

text \<open>The logger \<open>get_logger\<close> leaves behind when it configures one: level INFO, a file
  handler and a stream handler, both at INFO with the same formatter. A name is unconfigured
  in a registry that has no logger of that name, or one without handlers.\<close>

definition configured :: "log_outside \<Rightarrow> string \<Rightarrow> py_logger" where
  "configured out name =
     \<lparr> lg_level = Some INFO,
       lg_handlers =
         [\<lparr> hd_kind = FileHandler (''logs/'' @ name @ ''_'' @ today out @ ''.log''),
            hd_level = Some INFO, hd_formatter = Some log_format \<rparr>,
          \<lparr> hd_kind = StreamHandler, hd_level = Some INFO, hd_formatter = Some log_format \<rparr>] \<rparr>"

definition unconfigured :: "registry \<Rightarrow> string \<Rightarrow> bool" where
  "unconfigured reg name = (case reg name of None \<Rightarrow> True | Some lg \<Rightarrow> lg_handlers lg = [])"

text \<open>What a call can change at the client beyond its local records: the run identifier
  and the three call counters.\<close>

definition remote_of :: "state \<Rightarrow> json \<times> (string \<times> nat) list" where
  "remote_of s = (pipeline_run_id (fst s), api_call_count (fst s))"

definition all_calls_fail :: "outside \<Rightarrow> bool" where
  "all_calls_fail orc = (\<forall>k rq. http_failure rq (net orc k rq))"

section \<open>Example sessions\<close>

text \<open>A build server whose tracking backend times out on every call.\<close>

definition ci_env :: "string \<rightharpoonup> string" where
  "ci_env = [''BUILD_NUMBER'' \<mapsto> ''7'', ''JOB_NAME'' \<mapsto> ''nightly'']"

definition outage :: outside where
  "outage =
     \<lparr> net = (\<lambda>k rq. Raises (Exn Timeout ''timed out'')),
       clock = (\<lambda>k. Finite 100 0),
       utcnow = (\<lambda>k. ''2024-01-01T00:00:00''),
       int_of_str = (\<lambda>s. if s = ''7'' then Some 7 else None),
       str_of = (\<lambda>v. ''?'') \<rparr>"

text \<open>A developer's machine: none of the variables that mark a CI build is set.\<close>

definition local_env :: "string \<rightharpoonup> string" where
  "local_env = [''JOB_NAME'' \<mapsto> ''laptop'']"

text \<open>Reports of the call phase of four tests. The first one took 1.234 seconds: its
  duration is the float nearest to 1.234. The last one has an outcome that is none of
  passed, failed and skipped.\<close>

definition passing_report :: test_report where
  "passing_report =
     \<lparr> rep_name = ''test_login_success'', rep_outcome = ''passed'',
       rep_duration = Finite 5557441940175192 (- 52), rep_longrepr = None \<rparr>"

definition failing_report :: test_report where
  "failing_report =
     \<lparr> rep_name = ''test_login_invalid'', rep_outcome = ''failed'',
       rep_duration = Finite 3 (- 1), rep_longrepr = Some ''AssertionError'' \<rparr>"

definition skipped_report :: test_report where
  "skipped_report =
     \<lparr> rep_name = ''test_logout'', rep_outcome = ''skipped'',
       rep_duration = Finite 0 0, rep_longrepr = None \<rparr>"

definition rerun_report :: test_report where
  "rerun_report =
     \<lparr> rep_name = ''test_flaky'', rep_outcome = ''rerun'',
       rep_duration = Finite 1 0, rep_longrepr = None \<rparr>"

text \<open>A backend that answers the create call with a success whose body has no run
  identifier.\<close>

definition forgetful :: outside where
  "forgetful =
     \<lparr> net = (\<lambda>k rq. Responds
          \<lparr> status_code = 201, body_json = Some (JObj [(''message'', JStr ''created'')]) \<rparr>),
       clock = (\<lambda>k. Finite (1000 + int k) 0),
       utcnow = (\<lambda>k. ''2024-01-01T00:00:00''),
       int_of_str = (\<lambda>s. if s = ''7'' then Some 7 else None),
       str_of = (\<lambda>v. ''?'') \<rparr>"

text \<open>A client in the middle of a CI session: the run exists, a failed and a skipped test
  are recorded.\<close>

definition mid_session :: api_helper where
  "mid_session =
     (init ci_env)\<lparr> pipeline_run_id := JStr ''run-42'',
       test_results := [stored failing_report, stored skipped_report],
       suite_start_time := Some (Finite 1000 0) \<rparr>"

text \<open>A backend that answers every call with a success status, the create call with a run
  identifier and the test-case calls (their payload has a \<open>run\<close>) with an empty object.\<close>

definition terse :: outside where
  "terse =
     \<lparr> net = (\<lambda>k rq. Responds
          \<lparr> status_code = (case rq_method rq of POST \<Rightarrow> 201 | PATCH \<Rightarrow> 200),
            body_json = Some
              (if py_in ''run'' (rq_json rq) = Inr True then JObj []
               else JObj [(''pipeline_run'', JObj [(''run_id'', JStr ''run-42'')])]) \<rparr>),
       clock = (\<lambda>k. if k = 0 then Finite 1000 0 else Finite 1003 0),
       utcnow = (\<lambda>k. ''2024-01-01T00:00:00''),
       int_of_str = (\<lambda>s. if s = ''7'' then Some 7 else None),
       str_of = (\<lambda>v. ''?'') \<rparr>"

text \<open>Two calls of \<open>get_logger\<close>: on a day when the file can be opened, and on the next
  day with no space left. A browser session that cannot take a screenshot, a working
  directory in which no directory can be made, and an installation without the HTML report
  plugin. A failed test that was given a browser session, and a report world with nothing in
  it.\<close>

definition first_day :: log_outside where
  "first_day = \<lparr> today = ''20240101'', makedirs_error = None, open_error = None \<rparr>"

definition full_disk :: log_outside where
  "full_disk =
     \<lparr> today = ''20240102'', makedirs_error = None,
       open_error = Some (Exn OSError ''No space left on device'') \<rparr>"

definition broken_browser :: shot_outside where
  "broken_browser =
     \<lparr> so_now = ''20240101_120000'', so_makedirs = None,
       so_screenshot = Some (Exn OtherException ''no such window''),
       so_import = None, so_image = None, so_open = None, so_attach = None \<rparr>"

definition read_only_directory :: shot_outside where
  "read_only_directory =
     \<lparr> so_now = ''20240101_120000'',
       so_makedirs = Some (Exn OSError ''Read-only file system''),
       so_screenshot = None, so_import = None, so_image = None, so_open = None,
       so_attach = None \<rparr>"

definition no_report_plugin :: shot_outside where
  "no_report_plugin =
     \<lparr> so_now = ''20240101_120000'', so_makedirs = None, so_screenshot = None,
       so_import = Some (Exn ImportError ''No module named pytest_html''),
       so_image = None, so_open = None, so_attach = None \<rparr>"

definition login_item :: test_item where
  "login_item = \<lparr> item_name = ''test_login_invalid'', funcargs = [''py'' \<mapsto> Browser] \<rparr>"

definition empty_reports :: shot_world where
  "empty_reports = \<lparr> sw_dirs = [], sw_files = [], sw_extra = None, sw_attached = [] \<rparr>"

section \<open>Rules for statements\<close>

lemmas prog_defs = ret_def throw_def lift_def bnd_def seq_def try_except_def get_self_def
  set_self_def logger_def time_time_def utcnow_isoformat_def requests_send_def response_json_def

lemma post_request_run:
  "post_request orc ep p (h, w) =
     (Inr (post_returns (net orc (length (w_sent w)) (mk_request h POST ep p))),
      (h, w\<lparr>w_log := w_log w @ post_logs h ep (net orc (length (w_sent w)) (mk_request h POST ep p)),
            w_sent := w_sent w @ [mk_request h POST ep p]\<rparr>))"
  by (cases "net orc (length (w_sent w)) (mk_request h POST ep p)")
     (auto simp: post_request_def post_request_body_def prog_defs Let_def post_returns_def
        post_logs_def split: option.splits)

lemma patch_request_run:
  "patch_request orc ep p (h, w) =
     (Inr (patch_returns (net orc (length (w_sent w)) (mk_request h PATCH ep p))),
      (h, w\<lparr>w_log := w_log w @ patch_logs ep (net orc (length (w_sent w)) (mk_request h PATCH ep p)),
            w_sent := w_sent w @ [mk_request h PATCH ep p]\<rparr>))"
  by (cases "net orc (length (w_sent w)) (mk_request h PATCH ep p)")
     (auto simp: patch_request_def patch_request_body_def prog_defs Let_def patch_returns_def
        patch_logs_def split: option.splits)



lemma never_raises_ret: "never_raises (ret x)"
  by (simp add: never_raises_def ret_def)

lemma never_raises_get_self: "never_raises get_self"
  by (simp add: never_raises_def get_self_def)

lemma never_raises_set_self: "never_raises (set_self f)"
  by (simp add: never_raises_def set_self_def)

lemma never_raises_logger: "never_raises (logger l m a)"
  by (simp add: never_raises_def logger_def)

lemma never_raises_time_time: "never_raises (time_time orc)"
  by (simp add: never_raises_def time_time_def)

lemma never_raises_utcnow: "never_raises (utcnow_isoformat orc)"
  by (simp add: never_raises_def utcnow_isoformat_def)

lemma never_raises_bnd:
  assumes m: "never_raises m" and f: "\<And>x. never_raises (f x)"
  shows "never_raises (bnd m f)"
  unfolding never_raises_def
proof
  fix s
  from m obtain x where "fst (m s) = Inr x"
    unfolding never_raises_def by blast
  then have ms: "m s = (Inr x, snd (m s))"
    by (metis prod.collapse)
  from f [of x] obtain y where "fst (f x (snd (m s))) = Inr y"
    unfolding never_raises_def by blast
  then have "fst (bnd m f s) = Inr y"
    unfolding bnd_def by (subst ms) simp
  then show "\<exists>y. fst (bnd m f s) = Inr y" ..
qed

lemma never_raises_seq: "never_raises m \<Longrightarrow> never_raises n \<Longrightarrow> never_raises (seq m n)"
  by (simp add: seq_def never_raises_bnd)

lemma never_raises_try_except: "(\<And>e. never_raises (h e)) \<Longrightarrow> never_raises (try_except m h)"
  unfolding never_raises_def try_except_def
  by (auto split: prod.splits sum.splits)

lemma never_raises_if:
  "(c \<Longrightarrow> never_raises a) \<Longrightarrow> (\<not> c \<Longrightarrow> never_raises b) \<Longrightarrow> never_raises (if c then a else b)"
  by simp

lemmas never_raises_intros = never_raises_ret never_raises_get_self never_raises_set_self
  never_raises_logger never_raises_time_time never_raises_utcnow never_raises_bnd
  never_raises_seq never_raises_try_except never_raises_if

lemma keeps_ret: "keeps p (ret x)" by (simp add: keeps_def ret_def)
lemma keeps_throw: "keeps p (throw x)" by (simp add: keeps_def throw_def)
lemma keeps_lift: "keeps p (lift x)" by (simp add: keeps_def lift_def)
lemma keeps_get_self: "keeps p get_self" by (simp add: keeps_def get_self_def)
lemma keeps_bnd:
  assumes m: "keeps p m" and f: "\<And>x. keeps p (f x)"
  shows "keeps p (bnd m f)"
  unfolding keeps_def
proof
  fix s
  obtain r s' where ms: "m s = (r, s')" by (cases "m s")
  from m ms have 1: "p s' = p s" by (metis keeps_def snd_conv)
  show "p (snd (bnd m f s)) = p s"
  proof (cases r)
    case (Inl e)
    with ms 1 show ?thesis by (simp add: bnd_def)
  next
    case (Inr x)
    from f [of x] have "p (snd (f x s')) = p s'" unfolding keeps_def by blast
    with ms Inr 1 show ?thesis by (simp add: bnd_def)
  qed
qed
lemma keeps_seq: "keeps p m \<Longrightarrow> keeps p n \<Longrightarrow> keeps p (seq m n)"
  by (simp add: seq_def keeps_bnd)
lemma keeps_try_except:
  assumes m: "keeps p m" and f: "\<And>e. keeps p (h e)"
  shows "keeps p (try_except m h)"
  unfolding keeps_def
proof
  fix s
  obtain r s' where ms: "m s = (r, s')" by (cases "m s")
  from m ms have 1: "p s' = p s" by (metis keeps_def snd_conv)
  show "p (snd (try_except m h s)) = p s"
  proof (cases r)
    case (Inr x)
    with ms 1 show ?thesis by (simp add: try_except_def)
  next
    case (Inl e)
    from f [of e] have "p (snd (h e s')) = p s'" unfolding keeps_def by blast
    with ms Inl 1 show ?thesis by (simp add: try_except_def)
  qed
qed
lemma keeps_if:
  "(c \<Longrightarrow> keeps p a) \<Longrightarrow> (\<not> c \<Longrightarrow> keeps p b) \<Longrightarrow> keeps p (if c then a else b)"
  by simp
lemma ignores_world_log: "ignores_world p \<Longrightarrow> ignores_log p"
  by (simp add: ignores_world_def ignores_log_def)

lemma keeps_logger: "ignores_log p \<Longrightarrow> keeps p (logger l m a)"
  by (simp add: keeps_def logger_def ignores_log_def)
lemma keeps_time_time: "ignores_log p \<Longrightarrow> keeps p (time_time orc)"
  by (simp add: keeps_def time_time_def ignores_log_def)
lemma keeps_utcnow: "ignores_log p \<Longrightarrow> keeps p (utcnow_isoformat orc)"
  by (simp add: keeps_def utcnow_isoformat_def ignores_log_def)
lemma keeps_post_request: "ignores_world p \<Longrightarrow> keeps p (post_request orc ep pl)"
  unfolding keeps_def ignores_world_def
proof
  fix s :: state
  assume a: "\<forall>h w w'. p (h, w') = p (h, w)"
  obtain h w where s: "s = (h, w)" by (cases s)
  show "p (snd (post_request orc ep pl s)) = p s"
    unfolding s post_request_run using a by simp
qed
lemma keeps_patch_request: "ignores_world p \<Longrightarrow> keeps p (patch_request orc ep pl)"
  unfolding keeps_def ignores_world_def
proof
  fix s :: state
  assume a: "\<forall>h w w'. p (h, w') = p (h, w)"
  obtain h w where s: "s = (h, w)" by (cases s)
  show "p (snd (patch_request orc ep pl s)) = p s"
    unfolding s patch_request_run using a by simp
qed
lemma keeps_set_self: "(\<And>h w. p (f h, w) = p (h, w)) \<Longrightarrow> keeps p (set_self f)"
  by (simp add: keeps_def set_self_def)
lemma keeps_get_count: "keeps p (get_count k)"
  unfolding get_count_def by (intro keeps_bnd keeps_get_self) (simp add: keeps_throw keeps_ret split: option.split)
lemma keeps_count_call:
  "(\<And>h w c. p (h\<lparr>api_call_count := c\<rparr>, w) = p (h, w)) \<Longrightarrow> keeps p (count_call k)"
  unfolding count_call_def
  by (intro keeps_bnd keeps_get_self) (simp add: keeps_throw keeps_set_self split: option.split)

lemmas keeps_intros = keeps_ret keeps_throw keeps_lift keeps_get_self keeps_bnd keeps_seq
  keeps_try_except keeps_if keeps_logger keeps_time_time keeps_utcnow keeps_post_request
  keeps_patch_request keeps_get_count


lemma bnd_ret: "bnd (ret x) f = f x"
  by (simp add: bnd_def ret_def)

lemma keeps_print_summary: "ignores_log p \<Longrightarrow> keeps p print_summary"
  unfolding print_summary_def Let_def by (intro keeps_intros)

lemma keeps_print_api_summary: "ignores_log p \<Longrightarrow> keeps p print_api_summary"
  unfolding print_api_summary_def by (intro keeps_intros)

lemma keeps_total_duration_of: "ignores_log p \<Longrightarrow> keeps p (total_duration_of orc)"
  unfolding total_duration_of_def
  by (intro keeps_bnd keeps_get_self) (auto intro!: keeps_intros split: option.split)

lemma keeps_note_created:
  "ignores_log p \<Longrightarrow> (\<And>h w c. p (h\<lparr>api_call_count := c\<rparr>, w) = p (h, w)) \<Longrightarrow>
   keeps p (note_created ms r)"
  unfolding note_created_def by (intro keeps_intros keeps_count_call)

lemma keeps_note_updated:
  "ignores_log p \<Longrightarrow> (\<And>h w c. p (h\<lparr>api_call_count := c\<rparr>, w) = p (h, w)) \<Longrightarrow>
   keeps p (note_updated td ms n a b c st ok)"
  unfolding note_updated_def by (intro keeps_intros keeps_count_call keeps_print_api_summary)

subsection \<open>The parts of the state the statements speak of\<close>

lemma ignores_world_run_of: "ignores_world run_of"
  by (simp add: ignores_world_def run_of_def)

lemma ignores_world_id_of: "ignores_world id_of"
  by (simp add: ignores_world_def id_of_def)

lemma ignores_world_results_of: "ignores_world results_of"
  by (simp add: ignores_world_def results_of_def)

lemma ignores_world_remote_of: "ignores_world remote_of"
  by (simp add: ignores_world_def remote_of_def)

lemma ignores_log_sent_of: "ignores_log sent_of"
  by (simp add: ignores_log_def sent_of_def)

lemmas ignores_log_run_of = ignores_world_log [OF ignores_world_run_of]
lemmas ignores_log_id_of = ignores_world_log [OF ignores_world_id_of]
lemmas ignores_log_results_of = ignores_world_log [OF ignores_world_results_of]
lemmas ignores_log_remote_of = ignores_world_log [OF ignores_world_remote_of]

lemmas ignores_intros = ignores_world_run_of ignores_world_id_of ignores_world_results_of
  ignores_world_remote_of ignores_log_sent_of ignores_log_run_of ignores_log_id_of
  ignores_log_results_of ignores_log_remote_of

subsection \<open>No operation raises\<close>

lemma never_raises_before_all_tests: "never_raises (before_all_tests orc)"
  unfolding before_all_tests_def by (intro never_raises_intros)

lemma never_raises_after_each_test: "never_raises (after_each_test orc n st d em)"
  unfolding after_each_test_def by (intro never_raises_intros)

lemma never_raises_print_summary: "never_raises print_summary"
  unfolding print_summary_def Let_def by (intro never_raises_intros)

lemma never_raises_after_all_tests: "never_raises (after_all_tests orc)"
  unfolding after_all_tests_def by (intro never_raises_intros never_raises_print_summary)

lemma never_raises_unit: "never_raises m \<Longrightarrow> fst (m s) = Inr ()"
  unfolding never_raises_def by (metis old.unit.exhaust)

subsection \<open>When every call fails\<close>

lemma mk_request_method [simp]: "rq_method (mk_request h m ep p) = m"
  by (simp add: mk_request_def)

lemma post_returns_failure:
  "all_calls_fail orc \<Longrightarrow> post_returns (net orc k (mk_request h POST ep p)) = JNull"
  unfolding all_calls_fail_def http_failure_def post_returns_def
  by (auto split: http_outcome.splits http_method.splits
      dest!: spec [of _ k] spec [of _ "mk_request h POST ep p"])

lemma patch_returns_failure:
  "all_calls_fail orc \<Longrightarrow> patch_returns (net orc k (mk_request h PATCH ep p)) = False"
  unfolding all_calls_fail_def http_failure_def patch_returns_def
  by (auto split: http_outcome.splits http_method.splits
      dest!: spec [of _ k] spec [of _ "mk_request h PATCH ep p"])

lemma keeps_bnd_post_failed:
  assumes fail: "all_calls_fail orc" and p: "ignores_world p" and f: "keeps p (f JNull)"
  shows "keeps p (bnd (post_request orc ep pl) f)"
  unfolding keeps_def
proof
  fix s :: state
  obtain h w where s: "s = (h, w)" by (cases s)
  from f have "p (snd (f JNull (h, w'))) = p (h, w')" for w'
    unfolding keeps_def by blast
  with p show "p (snd (bnd (post_request orc ep pl) f s)) = p s"
    unfolding s bnd_def post_request_run post_returns_failure [OF fail] ignores_world_def
    by simp
qed

lemma keeps_bnd_patch_failed:
  assumes fail: "all_calls_fail orc" and p: "ignores_world p" and f: "keeps p (f False)"
  shows "keeps p (bnd (patch_request orc ep pl) f)"
  unfolding keeps_def
proof
  fix s :: state
  obtain h w where s: "s = (h, w)" by (cases s)
  from f have "p (snd (f False (h, w'))) = p (h, w')" for w'
    unfolding keeps_def by blast
  with p show "p (snd (bnd (patch_request orc ep pl) f s)) = p s"
    unfolding s bnd_def patch_request_run patch_returns_failure [OF fail] ignores_world_def
    by simp
qed

lemma read_run_id_falsy:
  "\<not> truthy j \<Longrightarrow> read_run_id j =
     seq (logger ERROR ''API-1 ERROR: Invalid response structure'' [])
         (logger ERROR ''    Response: {}'' [j])"
  by (simp add: read_run_id_def bnd_ret)

lemma keeps_remote_before_all_tests:
  "all_calls_fail orc \<Longrightarrow> keeps remote_of (before_all_tests orc)"
  unfolding before_all_tests_def before_all_tests_body_def
  by (intro keeps_bnd_post_failed keeps_intros keeps_set_self ignores_intros)
     (simp_all add: remote_of_def read_run_id_falsy keeps_seq keeps_logger ignores_intros)

lemma keeps_remote_after_each_test:
  "all_calls_fail orc \<Longrightarrow> keeps remote_of (after_each_test orc n st d em)"
  unfolding after_each_test_def after_each_test_body_def
  by (intro keeps_bnd_post_failed keeps_intros keeps_set_self ignores_intros)
     (simp_all add: remote_of_def note_created_def keeps_logger ignores_intros)

lemma keeps_remote_note_updated_failed: "keeps remote_of (note_updated td ms n a b c st False)"
  unfolding note_updated_def
  by (simp add: keeps_seq keeps_logger keeps_print_api_summary ignores_intros)

lemma keeps_remote_after_all_tests:
  "all_calls_fail orc \<Longrightarrow> keeps remote_of (after_all_tests orc)"
  unfolding after_all_tests_def after_all_tests_body_def Let_def
  by (intro keeps_bnd_patch_failed keeps_intros keeps_print_summary
        keeps_total_duration_of keeps_remote_note_updated_failed ignores_intros)

subsection \<open>The identifier and the CI flag after the session has started\<close>

lemma keeps_run_after_each_test: "keeps run_of (after_each_test orc n st d em)"
  unfolding after_each_test_def after_each_test_body_def
  by (intro keeps_intros keeps_set_self keeps_note_created ignores_intros)
     (simp_all add: run_of_def)

lemma keeps_run_after_all_tests: "keeps run_of (after_all_tests orc)"
  unfolding after_all_tests_def after_all_tests_body_def Let_def
  by (intro keeps_intros keeps_note_updated keeps_print_summary keeps_total_duration_of
        ignores_intros)
     (simp_all add: run_of_def)

lemma keeps_run_record_reports: "keeps run_of (record_reports orc reps)"
  by (induction reps)
     (simp_all add: keeps_ret keeps_seq record_report_def keeps_run_after_each_test)

subsection \<open>The local paths\<close>

lemma before_all_tests_local:
  "\<not> is_jenkins h \<Longrightarrow>
   before_all_tests orc (h, w) = (Inr (), (h, w\<lparr>w_log := w_log w @ local_notice\<rparr>))"
  by (simp add: before_all_tests_def prog_defs local_notice_def)

lemma print_summary_run:
  "print_summary (h, w) = (Inr (), (h, w\<lparr>w_log := w_log w @ summary_lines (test_results h)\<rparr>))"
  by (simp add: print_summary_def prog_defs summary_lines_def Let_def)

lemma after_all_tests_local:
  "local_only h \<Longrightarrow>
   after_all_tests orc (h, w) =
     (Inr (), (h, w\<lparr>w_log := w_log w @ summary_lines (test_results h)\<rparr>))"
  unfolding local_only_def
  by (simp add: after_all_tests_def bnd_def get_self_def print_summary_run)

lemma record_report_local:
  "local_only h \<Longrightarrow>
   record_report orc rep (h, w) =
     (Inr (), (h\<lparr>test_results := test_results h @ [stored rep]\<rparr>,
               w\<lparr>w_log := w_log w @ [report_line rep]\<rparr>))"
  unfolding local_only_def
  by (auto simp add: record_report_def after_each_test_def prog_defs stored_def report_line_def)

lemma record_reports_local:
  "local_only h \<Longrightarrow>
   record_reports orc reps (h, w) =
     (Inr (), (h\<lparr>test_results := test_results h @ map stored reps\<rparr>,
               w\<lparr>w_log := w_log w @ map report_line reps\<rparr>))"
proof (induction reps arbitrary: h w)
  case Nil
  show ?case by (simp add: ret_def)
next
  case (Cons rep reps)
  from Cons.prems have "local_only (h\<lparr>test_results := test_results h @ [stored rep]\<rparr>)"
    by (simp add: local_only_def)
  from Cons.IH [OF this] Cons.prems show ?case
    by (simp add: seq_def bnd_def record_report_local)
qed

lemma session_local:
  assumes "\<not> is_jenkins h"
  shows "session orc reps (h, w) =
     (Inr (), (h\<lparr>test_results := test_results h @ map stored reps\<rparr>,
               w\<lparr>w_log := w_log w @ local_notice @ map report_line reps @
                   summary_lines (test_results h @ map stored reps)\<rparr>))"
proof -
  from assms have l: "local_only h"
    by (simp add: local_only_def)
  then have l': "local_only (h\<lparr>test_results := test_results h @ map stored reps\<rparr>)"
    by (simp add: local_only_def)
  show ?thesis
    by (simp add: session_def seq_def bnd_def before_all_tests_local [OF assms]
        record_reports_local [OF l] after_all_tests_local [OF l'])
qed


lemma after_each_test_local:
  "local_only h \<Longrightarrow>
   after_each_test orc name status duration err (h, w) =
     (Inr (),
      (h\<lparr>test_results := test_results h @
           [\<lparr> tr_name = name, tr_status = upper status, tr_duration = duration,
              tr_error_message = err \<rparr>]\<rparr>,
       w\<lparr>w_log := w_log w @
           [(INFO, ''{} {} | {} ({:.2f}s)'',
             [JStr (status_emoji status), JStr name, JStr (upper status), JFloat duration])]\<rparr>))"
  unfolding local_only_def
  by (auto simp add: after_each_test_def prog_defs)

subsection \<open>Reading the response of the create call\<close>

lemma mk_request_start [simp]:
  "mk_request (h\<lparr>suite_start_time := t\<rparr>) = mk_request h"
  by (intro ext) (simp add: mk_request_def request_headers_def)

lemma create_payload_start [simp]:
  "create_payload (h\<lparr>suite_start_time := t\<rparr>) = create_payload h"
  by (intro ext) (simp add: create_payload_def)

text \<open>What reading the response does to the identifier.\<close>

lemma read_run_id_nested:
  assumes "nested_run_id j = Some rid"
  shows "id_of (snd (read_run_id j s)) = rid"
proof -
  from assms obtain kvs kvs' where j: "j = JObj kvs"
    and pr: "map_of kvs ''pipeline_run'' = Some (JObj kvs')" and rid: "map_of kvs' ''run_id'' = Some rid"
    by (auto simp: nested_run_id_def split: json.splits option.splits)
  from pr have ne: "kvs \<noteq> []" by auto
  define rest where "rest = seq (count_call ''api-1'')
        (seq (logger INFO [] [])
        (seq (logger INFO ''API-1 SUCCESS: Pipeline Run Created'' [])
        (bnd get_self (\<lambda>h.
         seq (logger INFO ''Pipeline Run ID: {}'' [pipeline_run_id h])
        (seq (logger INFO ''Build: #{}'' [JStr (build_number h)])
             (logger INFO ''Branch: {}'' [JStr (git_branch h)]))))))"
  have k: "keeps id_of rest"
    unfolding rest_def
    by (intro keeps_intros keeps_count_call ignores_intros) (simp add: id_of_def)
  have "read_run_id j = seq (set_self (\<lambda>h. h\<lparr>pipeline_run_id := rid\<rparr>)) rest"
    unfolding rest_def
    by (simp add: read_run_id_def j pr rid ne lift_def bnd_ret [unfolded ret_def])
  then have "snd (read_run_id j s) = snd (rest ((fst s)\<lparr>pipeline_run_id := rid\<rparr>, snd s))"
    by (simp add: seq_def bnd_def set_self_def)
  with k show ?thesis
    unfolding keeps_def by (simp add: id_of_def)
qed

lemma json_lookup_cases:
  "nested_run_id j = None \<Longrightarrow> truthy j \<Longrightarrow> py_in ''pipeline_run'' j = Inr True \<Longrightarrow>
   py_getitem j ''pipeline_run'' = Inr pr \<Longrightarrow> py_in ''run_id'' pr = Inr True \<Longrightarrow>
   \<exists>e. py_getitem pr ''run_id'' = Inl e"
  by (cases j; cases pr) (auto simp: nested_run_id_def split: option.splits json.splits)

lemma lacking_logged:
  "m = (Inr (), (h, w\<lparr>w_log := w_log w @ l\<rparr>)) \<Longrightarrow> \<exists>e\<in>set l. fst e = ERROR \<Longrightarrow>
   \<exists>r l. m = (r, (h, w\<lparr>w_log := w_log w @ l\<rparr>)) \<and> (r = Inr () \<longrightarrow> (\<exists>e\<in>set l. fst e = ERROR))"
  by blast

lemma lacking_raised:
  assumes "m = (Inl e, (h, w))"
  shows "\<exists>r l. m = (r, (h, w\<lparr>w_log := w_log w @ l\<rparr>)) \<and> (r = Inr () \<longrightarrow> (\<exists>e\<in>set l. fst e = ERROR))"
proof -
  from assms have "m = (Inl e, (h, w\<lparr>w_log := w_log w @ []\<rparr>))" by simp
  then show ?thesis by blast
qed

lemma read_run_id_lacking:
  assumes "nested_run_id j = None"
  shows "\<exists>r l. read_run_id j (h, w) = (r, (h, w\<lparr>w_log := w_log w @ l\<rparr>)) \<and>
           (r = Inr () \<longrightarrow> (\<exists>e\<in>set l. fst e = ERROR))"
proof (cases "truthy j")
  case False
  then show ?thesis
    by (intro lacking_logged [where l = "[(ERROR, ''API-1 ERROR: Invalid response structure'', []),
          (ERROR, ''    Response: {}'', [j])]"])
       (simp_all add: read_run_id_falsy seq_def bnd_def logger_def)
next
  case True
  note t = this
  show ?thesis
  proof (cases "py_in ''pipeline_run'' j")
    case (Inl e)
    with t show ?thesis
      by (intro lacking_raised [where e = e]) (simp add: read_run_id_def bnd_def lift_def)
  next
    case (Inr found)
    note f = this
    show ?thesis
    proof (cases found)
      case False
      with t f show ?thesis
        by (intro lacking_logged [where l = "[(ERROR, ''API-1 ERROR: Invalid response structure'', []),
              (ERROR, ''    Response: {}'', [j])]"])
           (simp_all add: read_run_id_def bnd_def lift_def seq_def logger_def)
    next
      case True
      note ft = this
      show ?thesis
      proof (cases "py_getitem j ''pipeline_run''")
        case (Inl e)
        with t f ft show ?thesis
          by (intro lacking_raised [where e = e]) (simp add: read_run_id_def bnd_def lift_def)
      next
        case (Inr pr)
        note g = this
        show ?thesis
        proof (cases "py_in ''run_id'' pr")
          case (Inl e)
          with t f ft g show ?thesis
            by (intro lacking_raised [where e = e]) (simp add: read_run_id_def bnd_def lift_def)
        next
          case (Inr has)
          show ?thesis
          proof (cases has)
            case False
            with t f ft g Inr show ?thesis
              by (intro lacking_logged [where l = "[(ERROR, ''API-1 ERROR: run_id not found in pipeline_run'', []),
                    (ERROR, ''    Response: {}'', [j])]"])
                 (simp_all add: read_run_id_def bnd_def lift_def seq_def logger_def)
          next
            case True
            with json_lookup_cases [OF assms t] f ft g Inr
            obtain e where "py_getitem pr ''run_id'' = Inl e" by auto
            with t f ft g Inr True show ?thesis
              by (intro lacking_raised [where e = e]) (simp add: read_run_id_def bnd_def lift_def)
          qed
        qed
      qed
    qed
  qed
qed

lemma read_run_id_lacking_id:
  "nested_run_id j = None \<Longrightarrow> id_of (snd (read_run_id j s)) = id_of s"
  using read_run_id_lacking [of j "fst s" "snd s"]
  by (auto simp: id_of_def)

lemma read_run_id_id:
  "id_of (snd (read_run_id j s)) = (case nested_run_id j of Some rid \<Rightarrow> rid | None \<Rightarrow> id_of s)"
  by (simp add: read_run_id_nested read_run_id_lacking_id split: option.split)


lemma post_logs_start [simp]: "post_logs (h\<lparr>suite_start_time := t\<rparr>) = post_logs h"
  by (intro ext) (auto simp: post_logs_def split: http_outcome.splits)

lemma before_all_tests_ci:
  assumes "is_jenkins h" and "int_of_str orc (build_number h) = Some bn"
  shows "before_all_tests orc (h, w) =
     after_create (read_run_id (post_returns (create_outcome orc h w bn))
       (h\<lparr>suite_start_time := Some (clock orc (w_ticks w))\<rparr>,
        w\<lparr>w_ticks := Suc (Suc (w_ticks w)),
          w_log := w_log w @ create_logs orc h w bn,
          w_sent := w_sent w @ [create_request orc h w bn]\<rparr>))"
  using assms
  by (simp add: before_all_tests_def before_all_tests_body_def int_of_build_number_def
      bnd_def seq_def try_except_def get_self_def set_self_def logger_def time_time_def
      utcnow_isoformat_def lift_def post_request_run after_create_def create_logs_def
      create_outcome_def create_request_def
      split: prod.splits sum.splits)

lemma before_all_tests_unparsed:
  assumes "is_jenkins h" and "int_of_str orc (build_number h) = None"
  shows "before_all_tests orc (h, w) =
     (Inr (), (h\<lparr>suite_start_time := Some (clock orc (w_ticks w))\<rparr>,
        w\<lparr>w_ticks := Suc (w_ticks w),
          w_log := w_log w @
             [(INFO, [], []), (INFO, banner, []), (INFO, ''API-1: Creating Pipeline Run'', []),
              (INFO, banner, []),
              (ERROR, ''API-1 ERROR: {}'', [JStr ''invalid literal for int() with base 10'']),
              (ERROR, ''    Traceback: {}'', [])]\<rparr>))"
  using assms
  by (simp add: before_all_tests_def before_all_tests_body_def int_of_build_number_def
      bnd_def seq_def try_except_def get_self_def set_self_def logger_def time_time_def
      lift_def)

lemma id_of_after_create: "id_of (snd (after_create r)) = id_of (snd r)"
  by (auto simp: after_create_def id_of_def split: prod.splits sum.splits)

lemma before_all_tests_id:
  "id_of (snd (before_all_tests orc (h, w))) =
     (if is_jenkins h then
        (case int_of_str orc (build_number h) of
           None \<Rightarrow> pipeline_run_id h
         | Some bn \<Rightarrow>
             (case nested_run_id (post_returns (create_outcome orc h w bn)) of
                Some rid \<Rightarrow> rid
              | None \<Rightarrow> pipeline_run_id h))
      else pipeline_run_id h)"
proof (cases "is_jenkins h")
  case False
  then show ?thesis by (simp add: before_all_tests_local id_of_def)
next
  case True
  show ?thesis
  proof (cases "int_of_str orc (build_number h)")
    case None
    from True None show ?thesis
      by (simp add: before_all_tests_unparsed id_of_def)
  next
    case (Some bn)
    with True show ?thesis
      by (simp add: before_all_tests_ci id_of_after_create read_run_id_id)
         (simp add: id_of_def split: option.split)
  qed
qed

lemma nested_post_returns:
  "nested_run_id (post_returns out) = Some rid \<Longrightarrow>
   \<exists>r j. out = Responds r \<and> status_code r \<in> {200, 201} \<and> body_json r = Some j \<and>
         nested_run_id j = Some rid"
  by (auto simp: post_returns_def nested_run_id_def split: http_outcome.splits if_splits option.splits)


subsection \<open>The remote paths\<close>

lemma mk_request_results [simp]:
  "mk_request (h\<lparr>test_results := t\<rparr>) = mk_request h"
  by (intro ext) (simp add: mk_request_def request_headers_def)

lemma test_case_payload_results [simp]:
  "test_case_payload (h\<lparr>test_results := t\<rparr>) = test_case_payload h"
  by (intro ext) (simp add: test_case_payload_def)

lemma post_logs_results [simp]: "post_logs (h\<lparr>test_results := t\<rparr>) = post_logs h"
  by (intro ext) (auto simp: post_logs_def split: http_outcome.splits)

lemma try_except_created:
  "try_except m (\<lambda>e. seq (logger ERROR ''API-3 ERROR: {}'' [JStr (exn_msg e)])
        (logger DEBUG ''    Traceback: {}'' [])) = (\<lambda>s. after_created (m s))"
  by (intro ext) (simp add: try_except_def after_created_def seq_def bnd_def logger_def
      split: prod.splits sum.splits)

lemma try_except_updated:
  "try_except m (\<lambda>e. seq (logger ERROR ''API-4 ERROR: {}'' [JStr (exn_msg e)])
        (logger ERROR ''    Traceback: {}'' [])) = (\<lambda>s. after_updated (m s))"
  by (intro ext) (simp add: try_except_def after_updated_def seq_def bnd_def logger_def
      split: prod.splits sum.splits)

lemma after_each_test_remote:
  assumes "is_jenkins h" and "truthy (pipeline_run_id h)"
    and "py_int (fmul d (Finite 1000 0)) = Inr ms"
  shows "after_each_test orc name status d err (h, w) =
     after_created (note_created ms
       (post_returns (net orc (length (w_sent w)) (test_case_request orc h w name status err ms)))
       (h\<lparr>test_results := test_results h @
           [\<lparr> tr_name = name, tr_status = upper status, tr_duration = d,
              tr_error_message = err \<rparr>]\<rparr>,
        w\<lparr>w_ticks := Suc (Suc (w_ticks w)),
          w_log := w_log w @
            (INFO, ''{} {} | {} ({:.2f}s)'',
              [JStr (status_emoji status), JStr name, JStr (upper status), JFloat d]) #
            post_logs h ''/api/test-cases/''
              (net orc (length (w_sent w)) (test_case_request orc h w name status err ms)),
          w_sent := w_sent w @ [test_case_request orc h w name status err ms]\<rparr>))"
proof -
  have body: "after_each_test_body orc name status d err (h', w') =
      note_created ms
        (post_returns (net orc (length (w_sent w')) (test_case_request orc h' w' name status err ms)))
        (h', w'\<lparr>w_ticks := Suc (Suc (w_ticks w')),
            w_log := w_log w' @ post_logs h' ''/api/test-cases/''
              (net orc (length (w_sent w')) (test_case_request orc h' w' name status err ms)),
            w_sent := w_sent w' @ [test_case_request orc h' w' name status err ms]\<rparr>)" for h' w'
    using assms(3)
    by (simp add: after_each_test_body_def bnd_def get_self_def utcnow_isoformat_def lift_def
        post_request_run test_case_request_def)
  from assms(1,2) show ?thesis
    unfolding after_each_test_def try_except_created
    by (simp add: seq_def bnd_def get_self_def set_self_def logger_def body
        test_case_request_def)
qed

lemma total_duration_at_log [simp]:
  "total_duration_at orc h (w\<lparr>w_log := l\<rparr>) = total_duration_at orc h w"
  by (simp add: total_duration_at_def split: option.split)

lemma total_duration_of_run:
  "total_duration_of orc (h, w) =
     (Inr (fst (total_duration_at orc h w)), (h, w\<lparr>w_ticks := snd (total_duration_at orc h w)\<rparr>))"
  by (simp add: total_duration_of_def total_duration_at_def bnd_def get_self_def ret_def
      time_time_def split: option.split)

lemma after_all_tests_remote:
  assumes "is_jenkins h" and "truthy (pipeline_run_id h)"
    and "millis (fst (total_duration_at orc h w)) = Inr ms"
  shows "after_all_tests orc (h, w) =
     after_updated (note_updated (fst (total_duration_at orc h w)) ms
       (int (length (test_results h))) (count_status ''PASSED'' (test_results h))
       (count_status ''FAILED'' (test_results h)) (count_status ''SKIPPED'' (test_results h))
       (overall_status_of (count_status ''FAILED'' (test_results h)))
       (patch_returns (net orc (length (w_sent w)) (update_request orc h w ms)))
       (h,
        w\<lparr>w_ticks := Suc (snd (total_duration_at orc h w)),
          w_log := w_log w @
            [(INFO, [], []), (INFO, banner, []), (INFO, ''API-4: Updating Pipeline Run'', []),
             (INFO, banner, []),
             (INFO, ''Request: PATCH /api/pipeline-runs/{}/'', [pipeline_run_id h])] @
            patch_logs (''/api/pipeline-runs/'' @ py_str orc (pipeline_run_id h) @ ''/'')
              (net orc (length (w_sent w)) (update_request orc h w ms)),
          w_sent := w_sent w @ [update_request orc h w ms]\<rparr>))"
proof -
  have body: "after_all_tests_body orc (h, w) =
      note_updated (fst (total_duration_at orc h w)) ms
       (int (length (test_results h))) (count_status ''PASSED'' (test_results h))
       (count_status ''FAILED'' (test_results h)) (count_status ''SKIPPED'' (test_results h))
       (overall_status_of (count_status ''FAILED'' (test_results h)))
       (patch_returns (net orc (length (w_sent w)) (update_request orc h w ms)))
       (h,
        w\<lparr>w_ticks := Suc (snd (total_duration_at orc h w)),
          w_log := w_log w @
            [(INFO, [], []), (INFO, banner, []), (INFO, ''API-4: Updating Pipeline Run'', []),
             (INFO, banner, []),
             (INFO, ''Request: PATCH /api/pipeline-runs/{}/'', [pipeline_run_id h])] @
            patch_logs (''/api/pipeline-runs/'' @ py_str orc (pipeline_run_id h) @ ''/'')
              (net orc (length (w_sent w)) (update_request orc h w ms)),
          w_sent := w_sent w @ [update_request orc h w ms]\<rparr>)"
    using assms(3)
    by (simp add: after_all_tests_body_def bnd_def seq_def get_self_def logger_def
        utcnow_isoformat_def lift_def patch_request_run total_duration_of_run
        update_request_def Let_def)
  from assms(1,2) show ?thesis
    unfolding after_all_tests_def try_except_updated
    by (simp add: bnd_def get_self_def body)
qed


lemma bit_length_0 [simp]: "bit_length 0 = 0"
  by (simp add: bit_length.simps)

lemma bit_length_1 [simp]: "bit_length (Suc 0) = Suc 0"
  by (simp add: bit_length.simps)

lemma bit_length_numeral [simp]:
  "bit_length (numeral k) = Suc (bit_length (numeral k div 2))"
  by (subst bit_length.simps) simp

lemma sent_of_after_created: "sent_of (snd (after_created r)) = sent_of (snd r)"
  by (auto simp: after_created_def sent_of_def split: prod.splits sum.splits)

lemma sent_of_after_updated: "sent_of (snd (after_updated r)) = sent_of (snd r)"
  by (auto simp: after_updated_def sent_of_def split: prod.splits sum.splits)

lemma keeps_sent_note_created: "keeps sent_of (note_created ms r)"
  by (intro keeps_note_created ignores_intros) (simp add: sent_of_def)

lemma keeps_sent_note_updated: "keeps sent_of (note_updated td ms n a b c st ok)"
  by (intro keeps_note_updated ignores_intros) (simp add: sent_of_def)

lemma after_each_test_sent:
  assumes "is_jenkins h" and "truthy (pipeline_run_id h)"
    and "py_int (fmul d (Finite 1000 0)) = Inr ms"
  shows "sent_of (snd (after_each_test orc name status d err (h, w))) =
     w_sent w @ [test_case_request orc h w name status err ms]"
  using keeps_sent_note_created
  unfolding after_each_test_remote [OF assms] sent_of_after_created keeps_def
  by (simp add: sent_of_def)

lemma after_all_tests_sent:
  assumes "is_jenkins h" and "truthy (pipeline_run_id h)"
    and "millis (fst (total_duration_at orc h w)) = Inr ms"
  shows "sent_of (snd (after_all_tests orc (h, w))) = w_sent w @ [update_request orc h w ms]"
  using keeps_sent_note_updated
  unfolding after_all_tests_remote [OF assms] sent_of_after_updated keeps_def
  by (simp add: sent_of_def)

lemma count_status_tally: "count_status s rs = tally s rs"
  unfolding count_status_def tally_def by (induction rs) simp_all

lemma overall_status_of_failed:
  "overall_status_of (count_status ''FAILED'' rs) =
     (if (\<exists>t\<in>set rs. tr_status t = ''FAILED'') then ''failed'' else ''passed'')"
proof -
  have "0 < length (filter (\<lambda>t. tr_status t = ''FAILED'') rs) \<longleftrightarrow>
      (\<exists>t\<in>set rs. tr_status t = ''FAILED'')"
    by (simp add: filter_empty_conv)
  then show ?thesis
    by (simp add: overall_status_of_def count_status_tally tally_def)
qed

lemmas float_defs = fround_def round_shift_def py_int_def Let_def

subsection \<open>Floats\<close>

lemma round_shift_nonneg: "0 \<le> m \<Longrightarrow> 0 \<le> round_shift m k"
  by (simp add: round_shift_def Let_def sgn_if pos_imp_zdiv_nonneg_iff)

lemma fround_nonneg: "0 \<le> m \<Longrightarrow> fround m e = Finite m' e' \<Longrightarrow> 0 \<le> m'"
  by (auto simp: fround_def Let_def round_shift_nonneg split: if_splits)

lemma py_int_floor:
  assumes "0 \<le> m"
  shows "py_int (Finite m e) = Inr \<lfloor>float_value m e\<rfloor>"
proof (cases "0 \<le> e")
  case True
  have "(of_int m * 2 ^ nat e :: real) = of_int (m * 2 ^ nat e)"
    by simp
  then have "\<lfloor>(of_int m * 2 ^ nat e :: real)\<rfloor> = m * 2 ^ nat e"
    by (simp only: floor_of_int)
  with True show ?thesis
    by (simp add: py_int_def float_value_def)
next
  case False
  have "(of_int m / 2 ^ nat (- e) :: real) = of_int m / of_int (2 ^ nat (- e))"
    by simp
  then have "\<lfloor>(of_int m / 2 ^ nat (- e) :: real)\<rfloor> = m div 2 ^ nat (- e)"
    by (simp only: floor_divide_of_int_eq)
  with False assms show ?thesis
    by (simp add: py_int_def float_value_def sgn_if)
qed

lemma test_case_request_duration:
  "py_getitem (rq_json (test_case_request orc h w name status err ms)) ''duration'' = Inr (JInt ms)"
  by (simp add: test_case_request_def mk_request_def test_case_payload_def)

subsection \<open>The recorded results\<close>

lemma seq_never_raises: "never_raises m \<Longrightarrow> seq m n s = n (snd (m s))"
proof -
  assume "never_raises m"
  then have "fst (m s) = Inr ()"
    by (rule never_raises_unit)
  then have "m s = (Inr (), snd (m s))"
    by (metis prod.collapse)
  then show ?thesis
    unfolding seq_def bnd_def by (metis (mono_tags, lifting) old.prod.case sum.case(2))
qed

lemma never_raises_record_report: "never_raises (record_report orc rep)"
  unfolding record_report_def by (rule never_raises_after_each_test)

lemma never_raises_record_reports: "never_raises (record_reports orc reps)"
  by (induction reps)
     (simp_all add: never_raises_ret never_raises_seq never_raises_record_report)

lemma keeps_results_before_all_tests: "keeps results_of (before_all_tests orc)"
  unfolding before_all_tests_def before_all_tests_body_def read_run_id_def
  by (intro keeps_intros keeps_set_self keeps_count_call ignores_intros)
     (simp_all add: results_of_def)

lemma keeps_results_after_all_tests: "keeps results_of (after_all_tests orc)"
  unfolding after_all_tests_def after_all_tests_body_def Let_def
  by (intro keeps_intros keeps_note_updated keeps_print_summary keeps_total_duration_of
        ignores_intros)
     (simp_all add: results_of_def)

lemma results_after_each_test:
  "results_of (snd (after_each_test orc name status d err s)) =
     results_of s @
     [\<lparr> tr_name = name, tr_status = upper status, tr_duration = d, tr_error_message = err \<rparr>]"
proof -
  define rest where "rest =
    seq (logger INFO ''{} {} | {} ({:.2f}s)''
            [JStr (status_emoji status), JStr name, JStr (upper status), JFloat d])
    (bnd get_self (\<lambda>h.
     if \<not> is_jenkins h \<or> \<not> truthy (pipeline_run_id h) then ret ()
     else
       try_except (after_each_test_body orc name status d err) (\<lambda>e.
         seq (logger ERROR ''API-3 ERROR: {}'' [JStr (exn_msg e)])
             (logger DEBUG ''    Traceback: {}'' []))))"
  have k: "keeps results_of rest"
    unfolding rest_def after_each_test_body_def
    by (intro keeps_intros keeps_note_created ignores_intros) (simp add: results_of_def)
  have "after_each_test orc name status d err s =
      rest ((fst s)\<lparr>test_results := test_results (fst s) @
        [\<lparr> tr_name = name, tr_status = upper status, tr_duration = d,
           tr_error_message = err \<rparr>]\<rparr>, snd s)"
    unfolding after_each_test_def rest_def [symmetric]
    by (simp add: seq_def bnd_def set_self_def)
  with k show ?thesis
    unfolding keeps_def by (simp add: results_of_def)
qed

lemma results_record_reports:
  "results_of (snd (record_reports orc reps s)) = results_of s @ map stored reps"
proof (induction reps arbitrary: s)
  case Nil
  show ?case by (simp add: ret_def)
next
  case (Cons rep reps)
  have "results_of (snd (record_report orc rep s)) = results_of s @ [stored rep]"
    by (simp add: record_report_def results_after_each_test stored_def)
  with Cons.IH [of "snd (record_report orc rep s)"] show ?case
    by (simp add: seq_never_raises [OF never_raises_record_report])
qed

lemma results_session:
  "results_of (snd (session orc reps s)) = results_of s @ map stored reps"
proof -
  let ?s1 = "snd (before_all_tests orc s)"
  let ?s2 = "snd (record_reports orc reps ?s1)"
  have "session orc reps s = after_all_tests orc ?s2"
    unfolding session_def
    by (simp add: seq_never_raises never_raises_before_all_tests never_raises_record_reports)
  moreover have "results_of (snd (after_all_tests orc ?s2)) = results_of ?s2"
    using keeps_results_after_all_tests [of orc] unfolding keeps_def by blast
  moreover have "results_of ?s1 = results_of s"
    using keeps_results_before_all_tests [of orc] unfolding keeps_def by blast
  ultimately show ?thesis
    by (simp add: results_record_reports)
qed

lemma tally_sum:
  "tally ''PASSED'' rs + tally ''FAILED'' rs + tally ''SKIPPED'' rs =
     int (length (filter (\<lambda>t. tr_status t \<in> {''PASSED'', ''FAILED'', ''SKIPPED''}) rs))"
  unfolding tally_def by (induction rs) auto

lemma tally_sum_le:
  "tally ''PASSED'' rs + tally ''FAILED'' rs + tally ''SKIPPED'' rs \<le> int (length rs)"
  unfolding tally_sum by simp

lemma length_filter_all: "length (filter P xs) = length xs \<longleftrightarrow> (\<forall>x\<in>set xs. P x)"
proof -
  have "length (filter P xs) = length xs \<longleftrightarrow> length (filter (\<lambda>x. \<not> P x) xs) = 0"
    using sum_length_filter_compl [of P xs] by arith
  then show ?thesis
    by (simp add: filter_empty_conv)
qed

lemma tally_sum_eq:
  "tally ''PASSED'' rs + tally ''FAILED'' rs + tally ''SKIPPED'' rs = int (length rs) \<longleftrightarrow>
     (\<forall>t\<in>set rs. tr_status t \<in> {''PASSED'', ''FAILED'', ''SKIPPED''})"
  unfolding tally_sum by (simp add: length_filter_all)

lemma stored_status:
  "rep_outcome rep \<in> {''passed'', ''failed'', ''skipped''} \<Longrightarrow>
   tr_status (stored rep) \<in> {''PASSED'', ''FAILED'', ''SKIPPED''}"
  by (auto simp: stored_def report_status_def upper_def upper_char_def)

lemma update_request_counts:
  "py_getitem (rq_json (update_request orc h w ms)) ''total_tests'' =
     Inr (JInt (int (length (test_results h)))) \<and>
   py_getitem (rq_json (update_request orc h w ms)) ''passed_tests'' =
     Inr (JInt (tally ''PASSED'' (test_results h))) \<and>
   py_getitem (rq_json (update_request orc h w ms)) ''failed_tests'' =
     Inr (JInt (tally ''FAILED'' (test_results h)))"
  by (simp add: update_request_def mk_request_def update_payload_def count_status_tally)

subsection \<open>A session in which every call succeeds\<close>

lemma ignores_world_self_of: "ignores_world self_of"
  by (simp add: ignores_world_def self_of_def)

lemmas ignores_log_self_of = ignores_world_log [OF ignores_world_self_of]

lemma post_returns_success:
  assumes "all_calls_succeed orc"
  shows "truthy (post_returns (net orc k (mk_request h POST ep p)))"
proof -
  from assms have "call_succeeds (mk_request h POST ep p) (net orc k (mk_request h POST ep p))"
    unfolding all_calls_succeed_def by blast
  then show ?thesis
    by (auto simp: call_succeeds_def post_returns_def split: http_outcome.splits option.splits)
qed

lemma patch_returns_success:
  assumes "all_calls_succeed orc"
  shows "patch_returns (net orc k (mk_request h PATCH ep p))"
proof -
  from assms have "call_succeeds (mk_request h PATCH ep p) (net orc k (mk_request h PATCH ep p))"
    unfolding all_calls_succeed_def by blast
  then show ?thesis
    by (auto simp: call_succeeds_def patch_returns_def split: http_outcome.splits)
qed

lemma count_call_run:
  "map_of (api_call_count h) key = Some c \<Longrightarrow>
   count_call key (h, w) =
     (Inr (), (h\<lparr>api_call_count := AList.update key (Suc c) (api_call_count h)\<rparr>, w))"
  by (simp add: count_call_def bnd_def get_self_def set_self_def)

lemma self_of_after_create: "self_of (snd (after_create r)) = self_of (snd r)"
  by (auto simp: after_create_def self_of_def split: prod.splits sum.splits)

lemma self_of_after_created: "self_of (snd (after_created r)) = self_of (snd r)"
  by (auto simp: after_created_def self_of_def split: prod.splits sum.splits)

lemma self_of_after_updated: "self_of (snd (after_updated r)) = self_of (snd r)"
  by (auto simp: after_updated_def self_of_def split: prod.splits sum.splits)

lemma sent_of_after_create: "sent_of (snd (after_create r)) = sent_of (snd r)"
  by (auto simp: after_create_def sent_of_def split: prod.splits sum.splits)

lemma read_run_id_self:
  assumes "nested_run_id j = Some rid" and "map_of (api_call_count h) ''api-1'' = Some c"
  shows "self_of (snd (read_run_id j (h, w))) =
     h\<lparr>pipeline_run_id := rid,
       api_call_count := AList.update ''api-1'' (Suc c) (api_call_count h)\<rparr>"
proof -
  from assms obtain kvs kvs' where j: "j = JObj kvs"
    and pr: "map_of kvs ''pipeline_run'' = Some (JObj kvs')"
    and rid: "map_of kvs' ''run_id'' = Some rid"
    by (auto simp: nested_run_id_def split: json.splits option.splits)
  from pr have ne: "kvs \<noteq> []" by auto
  define rest where "rest =
        (seq (logger INFO [] [])
        (seq (logger INFO ''API-1 SUCCESS: Pipeline Run Created'' [])
        (bnd get_self (\<lambda>h.
         seq (logger INFO ''Pipeline Run ID: {}'' [pipeline_run_id h])
        (seq (logger INFO ''Build: #{}'' [JStr (build_number h)])
             (logger INFO ''Branch: {}'' [JStr (git_branch h)]))))))"
  have k: "keeps self_of rest"
    unfolding rest_def by (intro keeps_intros ignores_log_self_of)
  have "read_run_id j =
      seq (set_self (\<lambda>h. h\<lparr>pipeline_run_id := rid\<rparr>)) (seq (count_call ''api-1'') rest)"
    unfolding rest_def
    by (simp add: read_run_id_def j pr rid ne lift_def bnd_ret [unfolded ret_def])
  then have "snd (read_run_id j (h, w)) =
      snd (rest (h\<lparr>pipeline_run_id := rid,
        api_call_count := AList.update ''api-1'' (Suc c) (api_call_count h)\<rparr>, w))"
    using assms(2) by (simp add: seq_def bnd_def set_self_def count_call_run)
  with k show ?thesis
    unfolding keeps_def by (simp add: self_of_def)
qed

lemma keeps_sent_read_run_id: "keeps sent_of (read_run_id j)"
  unfolding read_run_id_def
  by (intro keeps_intros keeps_set_self keeps_count_call ignores_intros)
     (simp_all add: sent_of_def)

lemma before_all_tests_success:
  assumes ci: "is_jenkins h" and bn: "int_of_str orc (build_number h) = Some bn"
    and rid: "nested_run_id (post_returns (create_outcome orc h w bn)) = Some rid"
    and c: "map_of (api_call_count h) ''api-1'' = Some c"
  shows "self_of (snd (before_all_tests orc (h, w))) =
       h\<lparr>pipeline_run_id := rid, suite_start_time := Some (clock orc (w_ticks w)),
         api_call_count := AList.update ''api-1'' (Suc c) (api_call_count h)\<rparr>"
    and "sent_of (snd (before_all_tests orc (h, w))) = w_sent w @ [create_request orc h w bn]"
proof -
  from c have c': "map_of (api_call_count (h\<lparr>suite_start_time := Some (clock orc (w_ticks w))\<rparr>))
      ''api-1'' = Some c"
    by simp
  show "self_of (snd (before_all_tests orc (h, w))) =
       h\<lparr>pipeline_run_id := rid, suite_start_time := Some (clock orc (w_ticks w)),
         api_call_count := AList.update ''api-1'' (Suc c) (api_call_count h)\<rparr>"
    unfolding before_all_tests_ci [OF ci bn] self_of_after_create read_run_id_self [OF rid c']
    by simp
  show "sent_of (snd (before_all_tests orc (h, w))) = w_sent w @ [create_request orc h w bn]"
    using keeps_sent_read_run_id
    unfolding before_all_tests_ci [OF ci bn] sent_of_after_create keeps_def
    by (simp add: sent_of_def)
qed

lemma after_each_test_success:
  assumes ci: "is_jenkins h" and id: "truthy (pipeline_run_id h)"
    and ok: "all_calls_succeed orc" and d: "converts d"
    and c: "map_of (api_call_count h) ''api-3'' = Some c"
  shows "self_of (snd (after_each_test orc name status d err (h, w))) =
       h\<lparr>test_results := test_results h @
           [\<lparr> tr_name = name, tr_status = upper status, tr_duration = d,
              tr_error_message = err \<rparr>],
         api_call_count := AList.update ''api-3'' (Suc c) (api_call_count h)\<rparr>"
    and "\<exists>rq. sent_of (snd (after_each_test orc name status d err (h, w))) = w_sent w @ [rq] \<and>
           rq_method rq = POST \<and> rq_url rq = api_base_url h @ ''/api/test-cases/''"
proof -
  from d obtain ms where ms: "py_int (fmul d (Finite 1000 0)) = Inr ms"
    by (auto simp: converts_def split: sum.splits)
  have t: "truthy (post_returns (net orc (length (w_sent w))
      (test_case_request orc h w name status err ms)))"
    unfolding test_case_request_def by (rule post_returns_success [OF ok])
  show "self_of (snd (after_each_test orc name status d err (h, w))) =
       h\<lparr>test_results := test_results h @
           [\<lparr> tr_name = name, tr_status = upper status, tr_duration = d,
              tr_error_message = err \<rparr>],
         api_call_count := AList.update ''api-3'' (Suc c) (api_call_count h)\<rparr>"
    unfolding after_each_test_remote [OF ci id ms] self_of_after_created
    using t c
    by (simp add: note_created_def seq_def bnd_def count_call_run logger_def self_of_def)
  from after_each_test_sent [OF ci id ms]
  show "\<exists>rq. sent_of (snd (after_each_test orc name status d err (h, w))) = w_sent w @ [rq] \<and>
           rq_method rq = POST \<and> rq_url rq = api_base_url h @ ''/api/test-cases/''"
    by (simp add: test_case_request_def mk_request_def)
qed


lemma record_reports_success:
  assumes ok: "all_calls_succeed orc"
  shows "is_jenkins (self_of s) \<Longrightarrow> truthy (pipeline_run_id (self_of s)) \<Longrightarrow>
     \<forall>rep\<in>set reps. converts (rep_duration rep) \<Longrightarrow>
     map_of (api_call_count (self_of s)) ''api-3'' = Some c \<Longrightarrow>
     self_of (snd (record_reports orc reps s)) =
       (self_of s)\<lparr>test_results := test_results (self_of s) @ map stored reps,
         api_call_count := AList.update ''api-3'' (c + length reps) (api_call_count (self_of s))\<rparr> \<and>
     (\<exists>rqs. sent_of (snd (record_reports orc reps s)) = sent_of s @ rqs \<and>
        length rqs = length reps \<and>
        (\<forall>rq\<in>set rqs. rq_method rq = POST \<and>
           rq_url rq = api_base_url (self_of s) @ ''/api/test-cases/''))"
proof (induction reps arbitrary: s c)
  case Nil
  then show ?case
    by (simp add: ret_def AList.update_triv)
next
  case (Cons rep reps)
  obtain h w where s: "s = (h, w)" by (cases s)
  let ?s1 = "snd (record_report orc rep s)"
  from Cons.prems s have ci: "is_jenkins h" and id: "truthy (pipeline_run_id h)"
    and d: "converts (rep_duration rep)" and c: "map_of (api_call_count h) ''api-3'' = Some c"
    by (simp_all add: self_of_def)
  from after_each_test_success [OF ci id ok d c]
  have h1: "self_of ?s1 = h\<lparr>test_results := test_results h @ [stored rep],
         api_call_count := AList.update ''api-3'' (Suc c) (api_call_count h)\<rparr>"
    and "\<exists>rq. sent_of ?s1 = w_sent w @ [rq] \<and> rq_method rq = POST \<and>
           rq_url rq = api_base_url h @ ''/api/test-cases/''"
    unfolding s record_report_def by (simp_all add: stored_def)
  then obtain rq where rq: "sent_of ?s1 = w_sent w @ [rq]" "rq_method rq = POST"
      "rq_url rq = api_base_url h @ ''/api/test-cases/''"
    by blast
  from h1 ci id c have p: "is_jenkins (self_of ?s1)" "truthy (pipeline_run_id (self_of ?s1))"
      "map_of (api_call_count (self_of ?s1)) ''api-3'' = Some (Suc c)"
    by (simp_all add: AList.update_conv')
  from Cons.prems have ds: "\<forall>rep\<in>set reps. converts (rep_duration rep)"
    by simp
  from Cons.IH [OF p(1) p(2) ds p(3)] obtain rqs
    where a: "self_of (snd (record_reports orc reps ?s1)) =
        (self_of ?s1)\<lparr>test_results := test_results (self_of ?s1) @ map stored reps,
          api_call_count := AList.update ''api-3'' (Suc c + length reps)
            (api_call_count (self_of ?s1))\<rparr>"
      and b: "sent_of (snd (record_reports orc reps ?s1)) = sent_of ?s1 @ rqs"
        "length rqs = length reps"
        "\<forall>rq\<in>set rqs. rq_method rq = POST \<and>
           rq_url rq = api_base_url (self_of ?s1) @ ''/api/test-cases/''"
    by blast
  have step: "record_reports orc (rep # reps) s = record_reports orc reps ?s1"
    by (simp add: seq_never_raises [OF never_raises_record_report])
  have "self_of (snd (record_reports orc (rep # reps) s)) =
       (self_of s)\<lparr>test_results := test_results (self_of s) @ map stored (rep # reps),
         api_call_count := AList.update ''api-3'' (c + length (rep # reps))
           (api_call_count (self_of s))\<rparr>"
    unfolding step a h1 by (simp add: s self_of_def)
  moreover have "sent_of (snd (record_reports orc (rep # reps) s)) = sent_of s @ (rq # rqs)"
    unfolding step b rq by (simp add: s sent_of_def)
  moreover have "length (rq # rqs) = length (rep # reps)"
    using b(2) by simp
  moreover have "\<forall>r\<in>set (rq # rqs). rq_method r = POST \<and>
           rq_url r = api_base_url (self_of s) @ ''/api/test-cases/''"
    using b(3) rq h1 by (simp add: s self_of_def)
  ultimately show ?case
    by blast
qed

lemma keeps_self_print_api_summary: "keeps self_of print_api_summary"
  by (intro keeps_print_api_summary ignores_log_self_of)

lemma note_updated_success_self:
  assumes "map_of (api_call_count h) ''api-4'' = Some c"
  shows "self_of (snd (note_updated td ms n a b sk st True (h, w))) =
     h\<lparr>api_call_count := AList.update ''api-4'' (Suc c) (api_call_count h)\<rparr>"
proof -
  define rest where "rest =
     seq (seq (logger INFO [] [])
           (seq (logger INFO ''API-4 SUCCESS: Pipeline Run Updated'' [])
           (seq (logger INFO ''Total: {} | {} | {} | {}'' [JInt n, JInt a, JInt b, JInt sk])
           (seq (logger INFO ''Duration: {:.2f}s ({}ms)'' [td, JInt ms])
                (logger INFO ''Status: {}'' [JStr (upper st)])))))
    (seq (logger INFO banner [])
    (seq (logger INFO [] [])
         print_api_summary))"
  have k: "keeps self_of rest"
    unfolding rest_def by (intro keeps_intros keeps_self_print_api_summary ignores_log_self_of)
  have "snd (note_updated td ms n a b sk st True (h, w)) =
      snd (rest (h\<lparr>api_call_count := AList.update ''api-4'' (Suc c) (api_call_count h)\<rparr>, w))"
    using assms unfolding rest_def note_updated_def
    by (simp add: seq_def bnd_def count_call_run)
  with k show ?thesis
    unfolding keeps_def by (simp add: self_of_def)
qed

lemma after_all_tests_success:
  assumes ci: "is_jenkins h" and id: "truthy (pipeline_run_id h)"
    and ok: "all_calls_succeed orc"
    and ms: "millis (fst (total_duration_at orc h w)) = Inr ms"
    and c: "map_of (api_call_count h) ''api-4'' = Some c"
  shows "self_of (snd (after_all_tests orc (h, w))) =
       h\<lparr>api_call_count := AList.update ''api-4'' (Suc c) (api_call_count h)\<rparr>"
  unfolding after_all_tests_remote [OF ci id ms] self_of_after_updated
  using patch_returns_success [OF ok, of "length (w_sent w)" h] c
  by (simp add: update_request_def note_updated_success_self)

lemma millis_converts:
  assumes "\<forall>j k. converts (fsub (clock orc k) (clock orc j))"
    and "suite_start_time h = Some (clock orc j)"
  shows "\<exists>ms. millis (fst (total_duration_at orc h w)) = Inr ms"
proof (cases "ftruthy (clock orc j)")
  case False
  with assms(2) show ?thesis
    by (simp add: total_duration_at_def millis_def)
next
  case True
  from assms(1) have "converts (fsub (clock orc (w_ticks w)) (clock orc j))"
    by blast
  with True assms(2) show ?thesis
    by (auto simp: total_duration_at_def millis_def converts_def split: sum.splits)
qed


lemma stored_status_of_outcome: "tr_status (stored rep) = status_of_outcome (rep_outcome rep)"
  by (simp add: stored_def report_status_def status_of_outcome_def)

lemma tally_stored:
  "tally s (map stored reps) =
     int (size (filter_mset (\<lambda>outcome. status_of_outcome outcome = s)
       (mset (map rep_outcome reps))))"
proof -
  have "filter (\<lambda>t. tr_status t = s) (map stored reps) =
      map stored (filter (\<lambda>rep. status_of_outcome (rep_outcome rep) = s) reps)"
    by (simp add: filter_map comp_def stored_status_of_outcome)
  moreover have "filter (\<lambda>outcome. status_of_outcome outcome = s) (map rep_outcome reps) =
      map rep_outcome (filter (\<lambda>rep. status_of_outcome (rep_outcome rep) = s) reps)"
    by (simp add: filter_map comp_def)
  ultimately have "length (filter (\<lambda>t. tr_status t = s) (map stored reps)) =
      length (filter (\<lambda>outcome. status_of_outcome outcome = s) (map rep_outcome reps))"
    by simp
  also have "\<dots> = size (filter_mset (\<lambda>outcome. status_of_outcome outcome = s)
      (mset (map rep_outcome reps)))"
    by (simp only: mset_filter [symmetric] size_mset)
  finally show ?thesis
    by (simp add: tally_def)
qed

lemma status_of_outcome_simps:
  "status_of_outcome ''passed'' = ''PASSED''"
  "status_of_outcome ''failed'' = ''FAILED''"
  "status_of_outcome ''skipped'' = ''SKIPPED''"
  by (simp_all add: status_of_outcome_def upper_def upper_char_def)


lemma tally_three:
  assumes "mset (map rep_outcome reps) = {#''passed'', ''failed'', ''skipped''#}"
  shows "tally ''PASSED'' (map stored reps) = 1" and "tally ''FAILED'' (map stored reps) = 1"
    and "tally ''SKIPPED'' (map stored reps) = 1" and "length reps = 3"
proof -
  show "tally ''PASSED'' (map stored reps) = 1"
    unfolding tally_stored assms by (simp add: status_of_outcome_simps)
  show "tally ''FAILED'' (map stored reps) = 1"
    unfolding tally_stored assms by (simp add: status_of_outcome_simps)
  show "tally ''SKIPPED'' (map stored reps) = 1"
    unfolding tally_stored assms by (simp add: status_of_outcome_simps)
  have "length reps = size (mset (map rep_outcome reps))"
    by simp
  then show "length reps = 3"
    unfolding assms by simp
qed

lemma backend_clock_converts: "\<forall>j k. converts (fsub (clock backend k) (clock backend j))"
proof (intro allI)
  fix j k :: nat
  have c: "clock backend n = (if n = 0 then Finite 1000 0 else Finite 1003 0)" for n
    by (simp add: backend_def)
  have r: "fround 0 0 = Finite 0 0" "fround 3 0 = Finite 3 0" "fround (- 3) 0 = Finite (- 3) 0"
    by (simp_all add: float_defs)
  have s: "fsub (Finite 1000 0) (Finite 1000 0) = Finite 0 0"
    "fsub (Finite 1000 0) (Finite 1003 0) = Finite (- 3) 0"
    "fsub (Finite 1003 0) (Finite 1000 0) = Finite 3 0"
    "fsub (Finite 1003 0) (Finite 1003 0) = Finite 0 0"
    by (simp_all add: r)
  have "converts (Finite 0 0)" "converts (Finite 3 0)" "converts (Finite (- 3) 0)"
    by (simp_all add: converts_def float_defs)
  then show "converts (fsub (clock backend k) (clock backend j))"
    unfolding c by (cases "k = 0"; cases "j = 0") (simp_all add: s del: fsub.simps)
qed

subsection \<open>Successes with an empty body\<close>

lemma ignores_world_test_case_calls: "ignores_world test_case_calls"
  by (simp add: ignores_world_def test_case_calls_def)

lemmas ignores_log_test_case_calls = ignores_world_log [OF ignores_world_test_case_calls]

lemma keeps_calls_count_call:
  "key \<noteq> ''api-3'' \<Longrightarrow> keeps test_case_calls (count_call key)"
  unfolding count_call_def
  by (intro keeps_bnd keeps_get_self)
     (auto simp: keeps_throw test_case_calls_def AList.update_conv' intro!: keeps_set_self
       split: option.split)

lemma keeps_calls_before_all_tests: "keeps test_case_calls (before_all_tests orc)"
  unfolding before_all_tests_def before_all_tests_body_def read_run_id_def
  by (intro keeps_intros keeps_set_self keeps_calls_count_call ignores_log_test_case_calls
        ignores_world_test_case_calls)
     (simp_all add: test_case_calls_def)

lemma keeps_calls_after_all_tests: "keeps test_case_calls (after_all_tests orc)"
  unfolding after_all_tests_def after_all_tests_body_def note_updated_def Let_def
  by (intro keeps_intros keeps_print_summary keeps_print_api_summary keeps_total_duration_of
        keeps_calls_count_call ignores_log_test_case_calls ignores_world_test_case_calls)
     simp_all

lemma terse_test_case_response:
  "post_returns (net terse k
     (mk_request h POST ep (test_case_payload h' name status err ms t1 t2))) = JObj []"
  by (simp add: terse_def post_returns_def mk_request_def test_case_payload_def)

lemma keeps_calls_after_each_test: "keeps test_case_calls (after_each_test terse name status d err)"
proof -
  have post: "keeps test_case_calls
      (bnd (post_request terse ''/api/test-cases/''
         (test_case_payload h name status err ms t1 t2)) (note_created ms))" for h ms t1 t2
    unfolding keeps_def
  proof
    fix s :: state
    obtain h' w where s: "s = (h', w)" by (cases s)
    show "test_case_calls (snd (bnd (post_request terse ''/api/test-cases/''
         (test_case_payload h name status err ms t1 t2)) (note_created ms) s)) = test_case_calls s"
      unfolding s bnd_def post_request_run terse_test_case_response
      by (simp add: note_created_def logger_def test_case_calls_def)
  qed
  show ?thesis
    unfolding after_each_test_def after_each_test_body_def
    by (intro post keeps_intros keeps_set_self ignores_log_test_case_calls)
       (simp add: test_case_calls_def)
qed

lemma keeps_calls_record_reports: "keeps test_case_calls (record_reports terse reps)"
  by (induction reps)
     (simp_all add: keeps_ret keeps_seq record_report_def keeps_calls_after_each_test)

lemma terse_never_fails: "\<not> http_failure rq (net terse k rq)"
  by (simp add: http_failure_def terse_def split: http_method.split)


subsection \<open>The logger provider\<close>

lemma get_logger_configured:
  "reg name = Some lg \<Longrightarrow> lg_handlers lg \<noteq> [] \<Longrightarrow> get_logger out name reg = (Inr lg, reg)"
  by (simp add: get_logger_def logging_getLogger_def)

lemma get_logger_again_configured:
  "reg name = Some lg \<Longrightarrow> lg_handlers lg \<noteq> [] \<Longrightarrow>
   get_logger_again outs name reg = (replicate (length outs) (Inr lg), reg)"
  by (induction outs) (simp_all add: get_logger_configured)

lemma get_logger_first:
  assumes "unconfigured reg name" and "makedirs_error out = None" and "open_error out = None"
  shows "get_logger out name reg =
     (Inr ((configured out name)),  reg(name \<mapsto> configured out name))"
proof (cases "reg name")
  case None
  with assms(2,3) show ?thesis
    by (simp add: get_logger_def logging_getLogger_def new_logger_def configured_def Let_def)
next
  case (Some lg)
  with assms(1) have "lg_handlers lg = []"
    by (simp add: unconfigured_def)
  with Some assms(2,3) show ?thesis
    by (cases lg) (simp add: get_logger_def logging_getLogger_def configured_def Let_def)
qed

subsection \<open>The screenshot\<close>

lemma save_screenshot_without_session:
  "\<not> fixture_truthy (funcargs item ''py'') \<Longrightarrow>
     save_screenshot_on_failure out item w = (Inr (), w)"
  by (simp add: save_screenshot_on_failure_def)

lemma attachment_failure_caught:
  assumes "funcargs item ''py'' = Some Browser" and "so_makedirs out = None"
    and "so_screenshot out = None"
  shows "fst (save_screenshot_on_failure out item w) = Inr ()"
    and "sw_files (snd (save_screenshot_on_failure out item w)) =
      sw_files w @
        [os_path_join ''reports/screenshots'' (item_name item @ ''_'' @ so_now out @ ''.png'')]"
proof -
  from assms show "fst (save_screenshot_on_failure out item w) = Inr ()"
    by (simp add: save_screenshot_on_failure_def fixture_truthy_def fails_def Let_def
        split: prod.splits sum.splits)
  from assms show "sw_files (snd (save_screenshot_on_failure out item w)) =
      sw_files w @
        [os_path_join ''reports/screenshots'' (item_name item @ ''_'' @ so_now out @ ''.png'')]"
    by (auto simp add: save_screenshot_on_failure_def fixture_truthy_def fails_def Let_def
        attach_screenshot_def split: prod.splits sum.splits option.splits)
qed

lemma screenshot_failure_leaves:
  assumes "funcargs item ''py'' = Some Browser" and "so_makedirs out = None"
    and "so_screenshot out = Some e"
  shows "fst (save_screenshot_on_failure out item w) = Inl e"
  using assms
  by (simp add: save_screenshot_on_failure_def fixture_truthy_def fails_def Let_def)

lemma makedirs_failure_leaves:
  assumes "fixture_truthy (funcargs item ''py'')" and "so_makedirs out = Some e"
  shows "fst (save_screenshot_on_failure out item w) = Inl e"
  using assms
  by (simp add: save_screenshot_on_failure_def fails_def Let_def)

section \<open>The claims\<close>

text \<open>
  C3. Whatever the network does to a call (a timeout, a refused connection, a status that is
  not a success, any other exception raised while sending), \<open>before_all_tests\<close>,
  \<open>after_each_test\<close> and \<open>after_all_tests\<close> return normally: none of them raises, in any
  state and for any behaviour of the network. And when every call fails at the transport
  level, the call has no remote effect at the client: the run identifier and the call counters
  are after each operation what they were before it.
\<close>

theorem http_failures_are_never_raised:
  "fst (before_all_tests orc s) = Inr () \<and>
   fst (after_each_test orc name status duration err s) = Inr () \<and>
   fst (after_all_tests orc s) = Inr () \<and>
   (all_calls_fail orc \<longrightarrow>
      remote_of (snd (before_all_tests orc s)) = remote_of s \<and>
      remote_of (snd (after_each_test orc name status duration err s)) = remote_of s \<and>
      remote_of (snd (after_all_tests orc s)) = remote_of s)"
  using never_raises_unit [OF never_raises_before_all_tests]
    never_raises_unit [OF never_raises_after_each_test]
    never_raises_unit [OF never_raises_after_all_tests]
    keeps_remote_before_all_tests keeps_remote_after_each_test keeps_remote_after_all_tests
  unfolding keeps_def by blast


theorem http_failures_are_never_raised_witness:
  "all_calls_fail outage \<and>
   fst (before_all_tests outage (init ci_env, fresh_world)) = Inr () \<and>
   fst (after_each_test outage ''test_login'' ''passed'' (Finite 3 (- 1)) None
          (init ci_env, fresh_world)) = Inr () \<and>
   fst (after_all_tests outage (init ci_env, fresh_world)) = Inr () \<and>
   remote_of (snd (before_all_tests outage (init ci_env, fresh_world))) =
     (JNull, [(''api-1'', 0), (''api-3'', 0), (''api-4'', 0)])"
proof -
  have fail: "all_calls_fail outage"
    by (simp add: all_calls_fail_def http_failure_def outage_def)
  have start: "remote_of (init ci_env, fresh_world) =
      (JNull, [(''api-1'', 0), (''api-3'', 0), (''api-4'', 0)])"
    by (simp add: remote_of_def init_def)
  from fail start
    http_failures_are_never_raised [of outage "(init ci_env, fresh_world)" "''test_login''"
      "''passed''" "Finite 3 (- 1)" None]
  show ?thesis by simp
qed


text \<open>
  C10. The run identifier is \<open>None\<close> at construction. \<open>before_all_tests\<close> changes it only
  when the client runs under CI and the create call got a response with status 200 or 201
  whose body holds the nested \<open>run_id\<close>, and then to that value. \<open>after_each_test\<close> and
  \<open>after_all_tests\<close> never change it, so that its value at the end of a session is the one
  \<open>before_all_tests\<close> left: it is assigned at most once. While it is \<open>None\<close>, neither of the
  two sends a request, whatever the CI flag is.
\<close>

theorem run_id_is_set_only_by_create:
  "pipeline_run_id (init env) = JNull \<and>
   (id_of (snd (before_all_tests orc (h, w))) \<noteq> pipeline_run_id h \<longrightarrow>
      is_jenkins h \<and>
      (\<exists>bn r j. int_of_str orc (build_number h) = Some bn \<and>
         create_outcome orc h w bn = Responds r \<and> status_code r \<in> {200, 201} \<and>
         body_json r = Some j \<and>
         nested_run_id j = Some (id_of (snd (before_all_tests orc (h, w)))))) \<and>
   id_of (snd (after_each_test orc name status duration err (h, w))) = pipeline_run_id h \<and>
   id_of (snd (after_all_tests orc (h, w))) = pipeline_run_id h \<and>
   id_of (snd (session orc reps (h, w))) = id_of (snd (before_all_tests orc (h, w))) \<and>
   (pipeline_run_id h = JNull \<longrightarrow>
      sent_of (snd (after_each_test orc name status duration err (h, w))) = w_sent w \<and>
      sent_of (snd (after_all_tests orc (h, w))) = w_sent w)"
proof (intro conjI impI)
  show "pipeline_run_id (init env) = JNull"
    by (simp add: init_def)
next
  assume changed: "id_of (snd (before_all_tests orc (h, w))) \<noteq> pipeline_run_id h"
  then show "is_jenkins h"
    by (auto simp: before_all_tests_id split: if_splits)
  from changed obtain bn where bn: "int_of_str orc (build_number h) = Some bn"
    and rid: "nested_run_id (post_returns (create_outcome orc h w bn)) =
        Some (id_of (snd (before_all_tests orc (h, w))))"
    by (auto simp: before_all_tests_id split: if_splits option.splits)
  from nested_post_returns [OF rid] bn
  show "\<exists>bn r j. int_of_str orc (build_number h) = Some bn \<and>
         create_outcome orc h w bn = Responds r \<and> status_code r \<in> {200, 201} \<and>
         body_json r = Some j \<and>
         nested_run_id j = Some (id_of (snd (before_all_tests orc (h, w))))"
    by blast
next
  from keeps_run_after_each_test [of orc name status duration err]
  show "id_of (snd (after_each_test orc name status duration err (h, w))) = pipeline_run_id h"
    unfolding keeps_def run_of_def id_of_def by (metis fst_conv)
next
  from keeps_run_after_all_tests [of orc]
  show "id_of (snd (after_all_tests orc (h, w))) = pipeline_run_id h"
    unfolding keeps_def run_of_def id_of_def by (metis fst_conv)
next
  have "keeps run_of (seq (record_reports orc reps) (after_all_tests orc))"
    by (intro keeps_seq keeps_run_record_reports keeps_run_after_all_tests)
  then have k: "run_of (snd (seq (record_reports orc reps) (after_all_tests orc) s)) = run_of s" for s
    unfolding keeps_def by blast
  obtain s1 where s1: "before_all_tests orc (h, w) = (Inr (), s1)"
    using never_raises_unit [OF never_raises_before_all_tests, of orc "(h, w)"]
    by (metis prod.collapse)
  have "session orc reps (h, w) = seq (record_reports orc reps) (after_all_tests orc) s1"
    unfolding session_def by (simp add: seq_def [of "before_all_tests orc"] bnd_def s1)
  with k [of s1] s1
  show "id_of (snd (session orc reps (h, w))) = id_of (snd (before_all_tests orc (h, w)))"
    by (simp add: run_of_def id_of_def)
next
  assume "pipeline_run_id h = JNull"
  then have l: "local_only h" by (simp add: local_only_def)
  from l show "sent_of (snd (after_each_test orc name status duration err (h, w))) = w_sent w"
    unfolding local_only_def
    by (auto simp add: after_each_test_def prog_defs sent_of_def)
  from l show "sent_of (snd (after_all_tests orc (h, w))) = w_sent w"
    by (simp add: after_all_tests_local sent_of_def)
qed


theorem run_id_is_set_only_by_create_witness:
  "id_of (snd (before_all_tests backend (init ci_env, fresh_world))) = JStr ''run-42'' \<and>
   JStr ''run-42'' \<noteq> pipeline_run_id (init ci_env) \<and>
   is_jenkins (init ci_env) \<and>
   pipeline_run_id (init ci_env) = JNull \<and>
   sent_of (snd (after_all_tests backend (init ci_env, fresh_world))) = []"
proof -
  have a: "id_of (snd (before_all_tests backend (init ci_env, fresh_world))) = JStr ''run-42''"
    by (simp add: before_all_tests_id init_def ci_env_def getenv_def backend_def
        create_outcome_def create_request_def post_returns_def nested_run_id_def)
  have b: "pipeline_run_id (init ci_env) = JNull"
    by (simp add: init_def)
  from a b
    run_id_is_set_only_by_create [of ci_env backend "init ci_env" fresh_world "''test_login''"
      "''passed''" "Finite 3 (- 1)" None "[]"]
  show ?thesis by (simp add: fresh_world_def)
qed

text \<open>
  C4. While the CI flag is false, \<open>before_all_tests\<close> only logs its notice: it sends no
  request and leaves the run identifier as it is (\<open>None\<close> from construction on);
  \<open>after_each_test\<close> appends its record and logs one line, and sends no request;
  \<open>after_all_tests\<close> sends no request and logs the lines of the local summary, which are
  the summary with its counts when at least one result was recorded and no line at all when
  none was. A whole session under a false flag therefore leaves the list of sent requests
  untouched.
\<close>

theorem local_run_sends_no_request:
  assumes "\<not> is_jenkins h"
  shows "before_all_tests orc (h, w) = (Inr (), (h, w\<lparr>w_log := w_log w @ local_notice\<rparr>)) \<and>
    after_each_test orc name status duration err (h, w) =
      (Inr (),
       (h\<lparr>test_results := test_results h @
            [\<lparr> tr_name = name, tr_status = upper status, tr_duration = duration,
               tr_error_message = err \<rparr>]\<rparr>,
        w\<lparr>w_log := w_log w @
            [(INFO, ''{} {} | {} ({:.2f}s)'',
              [JStr (status_emoji status), JStr name, JStr (upper status), JFloat duration])]\<rparr>)) \<and>
    after_all_tests orc (h, w) =
      (Inr (), (h, w\<lparr>w_log := w_log w @ summary_lines (test_results h)\<rparr>)) \<and>
    session orc reps (h, w) =
      (Inr (),
       (h\<lparr>test_results := test_results h @ map stored reps\<rparr>,
        w\<lparr>w_log := w_log w @ local_notice @ map report_line reps @
            summary_lines (test_results h @ map stored reps)\<rparr>))"
proof -
  from assms have "local_only h"
    by (simp add: local_only_def)
  with assms show ?thesis
    by (simp add: before_all_tests_local after_each_test_local after_all_tests_local
        session_local)
qed

theorem local_run_sends_no_request_witness:
  "\<not> is_jenkins (init local_env) \<and>
   pipeline_run_id (init local_env) = JNull \<and>
   sent_of (snd (session backend [passing_report] (init local_env, fresh_world))) = [] \<and>
   id_of (snd (session backend [passing_report] (init local_env, fresh_world))) = JNull \<and>
   map tr_status (results_of (snd (session backend [passing_report] (init local_env, fresh_world))))
     = [''PASSED''] \<and>
   (INFO, ''Total: {} | {} | {} | {}'', [JInt 1, JInt 1, JInt 0, JInt 0])
     \<in> set (w_log (snd (snd (session backend [passing_report] (init local_env, fresh_world)))))"
proof -
  have l: "\<not> is_jenkins (init local_env)"
    by (simp add: init_def local_env_def)
  from local_run_sends_no_request [OF l, of backend fresh_world _ _ _ _ "[passing_report]"]
  have "session backend [passing_report] (init local_env, fresh_world) =
      (Inr (),
       ((init local_env)\<lparr>test_results := test_results (init local_env) @ map stored [passing_report]\<rparr>,
        fresh_world\<lparr>w_log := w_log fresh_world @ local_notice @ map report_line [passing_report] @
            summary_lines (test_results (init local_env) @ map stored [passing_report])\<rparr>))"
    by blast
  with l show ?thesis
    by (simp add: sent_of_def id_of_def results_of_def init_def fresh_world_def stored_def
        passing_report_def report_status_def upper_def upper_char_def summary_lines_def
        count_status_def)
qed

text \<open>With no result recorded, \<open>after_all_tests\<close> produces no summary: it changes nothing.\<close>

theorem empty_local_run_prints_no_summary:
  "after_all_tests backend (init local_env, fresh_world) = (Inr (), (init local_env, fresh_world))"
  by (simp add: after_all_tests_def print_summary_def bnd_def get_self_def ret_def init_def
      local_env_def)

text \<open>
  C5. Under CI, with the identifier unset, let the create call get a response with status 200
  or 201 whose body is not JSON or has no \<open>run_id\<close> inside an object under
  \<open>pipeline_run\<close>. Then \<open>before_all_tests\<close> returns normally, the identifier is still
  unset, at least one record of level ERROR was logged, the create request is the only one
  sent, and whatever tests are recorded afterwards and the closing \<open>after_all_tests\<close> send
  no request.
\<close>

theorem create_response_without_run_id:
  assumes ci: "is_jenkins h" and unset: "pipeline_run_id h = JNull"
    and bn: "int_of_str orc (build_number h) = Some bn"
    and resp: "create_outcome orc h w bn = Responds r"
    and ok: "status_code r \<in> {200, 201}"
    and lacks: "case body_json r of None \<Rightarrow> True | Some j \<Rightarrow> nested_run_id j = None"
  shows "\<exists>h' w' l.
     before_all_tests orc (h, w) = (Inr (), (h', w')) \<and>
     pipeline_run_id h' = JNull \<and>
     w_log w' = w_log w @ l \<and> (\<exists>e\<in>set l. fst e = ERROR) \<and>
     w_sent w' = w_sent w @ [create_request orc h w bn] \<and>
     (\<forall>reps. sent_of (snd (seq (record_reports orc reps) (after_all_tests orc) (h', w'))) =
        w_sent w')"
proof -
  define h1 where "h1 = h\<lparr>suite_start_time := Some (clock orc (w_ticks w))\<rparr>"
  define w1 where "w1 = w\<lparr>w_ticks := Suc (Suc (w_ticks w)),
      w_log := w_log w @ create_logs orc h w bn,
      w_sent := w_sent w @ [create_request orc h w bn]\<rparr>"
  from resp ok lacks have n: "nested_run_id (post_returns (create_outcome orc h w bn)) = None"
    by (auto simp: post_returns_def nested_run_id_def split: option.splits)
  from read_run_id_lacking [OF n, of h1 w1] obtain res l1
    where run: "read_run_id (post_returns (create_outcome orc h w bn)) (h1, w1) =
        (res, (h1, w1\<lparr>w_log := w_log w1 @ l1\<rparr>))"
      and err: "res = Inr () \<longrightarrow> (\<exists>e\<in>set l1. fst e = ERROR)"
    by blast
  define l2 where "l2 = (case res of
      Inl e \<Rightarrow> [(ERROR, ''API-1 ERROR: {}'', [JStr (exn_msg e)]), (ERROR, ''    Traceback: {}'', [])]
    | Inr u \<Rightarrow> [(INFO, banner, []), (INFO, [], [])])"
  define w2 where "w2 = w1\<lparr>w_log := w_log w @ create_logs orc h w bn @ l1 @ l2\<rparr>"
  have eq: "before_all_tests orc (h, w) = (Inr (), (h1, w2))"
    unfolding before_all_tests_ci [OF ci bn] h1_def [symmetric] w1_def [symmetric] run
    by (cases res) (simp_all add: after_create_def w2_def l2_def w1_def)
  have errs: "\<exists>e\<in>set (create_logs orc h w bn @ l1 @ l2). fst e = ERROR"
  proof (cases res)
    case (Inl e)
    then show ?thesis by (simp add: l2_def)
  next
    case (Inr u)
    with err show ?thesis by auto
  qed
  from unset have loc: "local_only h1"
    by (simp add: local_only_def h1_def)
  then have loc': "local_only (h1\<lparr>test_results := test_results h1 @ map stored reps\<rparr>)" for reps
    by (simp add: local_only_def)
  have after: "sent_of (snd (seq (record_reports orc reps) (after_all_tests orc) (h1, w2))) = w_sent w2"
    for reps
    by (simp add: seq_def bnd_def record_reports_local [OF loc] after_all_tests_local [OF loc']
        sent_of_def)
  from unset have "pipeline_run_id h1 = JNull"
    by (simp add: h1_def)
  moreover have "w_log w2 = w_log w @ (create_logs orc h w bn @ l1 @ l2)"
    by (simp add: w2_def)
  moreover have "w_sent w2 = w_sent w @ [create_request orc h w bn]"
    by (simp add: w2_def w1_def)
  ultimately show ?thesis
    using eq errs after by blast
qed


theorem create_response_without_run_id_witness:
  "is_jenkins (init ci_env) \<and> pipeline_run_id (init ci_env) = JNull \<and>
   int_of_str forgetful (build_number (init ci_env)) = Some 7 \<and>
   create_outcome forgetful (init ci_env) fresh_world 7 =
     Responds \<lparr> status_code = 201, body_json = Some (JObj [(''message'', JStr ''created'')]) \<rparr> \<and>
   (\<exists>h' w' l.
      before_all_tests forgetful (init ci_env, fresh_world) = (Inr (), (h', w')) \<and>
      pipeline_run_id h' = JNull \<and>
      w_log w' = w_log fresh_world @ l \<and> (\<exists>e\<in>set l. fst e = ERROR) \<and>
      w_sent w' = w_sent fresh_world @ [create_request forgetful (init ci_env) fresh_world 7] \<and>
      (\<forall>reps. sent_of (snd (seq (record_reports forgetful reps) (after_all_tests forgetful)
          (h', w'))) = w_sent w'))"
proof -
  have ci: "is_jenkins (init ci_env)"
    by (simp add: init_def ci_env_def)
  have unset: "pipeline_run_id (init ci_env) = JNull"
    by (simp add: init_def)
  have bn: "int_of_str forgetful (build_number (init ci_env)) = Some 7"
    by (simp add: init_def ci_env_def getenv_def forgetful_def)
  have resp: "create_outcome forgetful (init ci_env) fresh_world 7 =
      Responds \<lparr> status_code = 201, body_json = Some (JObj [(''message'', JStr ''created'')]) \<rparr>"
    by (simp add: create_outcome_def forgetful_def)
  from ci unset bn resp create_response_without_run_id [OF ci unset bn resp]
  show ?thesis
    by (simp add: nested_run_id_def)
qed

text \<open>
  C2. The overall status \<open>after_all_tests\<close> computes from the recorded results is
  \<open>failed\<close> if at least one of them is stored as FAILED and \<open>passed\<close> otherwise, for every
  list of results (so for an empty list and for one of skipped tests only it is \<open>passed\<close>).
  On the remote path, when the elapsed time converts to milliseconds, this is the status of
  the one request \<open>after_all_tests\<close> sends.
\<close>

theorem overall_status_failed_iff_a_result_failed:
  "overall_status_of (count_status ''FAILED'' rs) =
     (if (\<exists>t\<in>set rs. tr_status t = ''FAILED'') then ''failed'' else ''passed'') \<and>
   (is_jenkins h \<and> truthy (pipeline_run_id h) \<and>
    millis (fst (total_duration_at orc h w)) = Inr ms \<longrightarrow>
      sent_of (snd (after_all_tests orc (h, w))) = w_sent w @ [update_request orc h w ms] \<and>
      py_getitem (rq_json (update_request orc h w ms)) ''status'' =
        Inr (JStr (if (\<exists>t\<in>set (test_results h). tr_status t = ''FAILED'')
                   then ''failed'' else ''passed'')))"
proof (intro conjI impI)
  show "overall_status_of (count_status ''FAILED'' rs) =
     (if (\<exists>t\<in>set rs. tr_status t = ''FAILED'') then ''failed'' else ''passed'')"
    by (rule overall_status_of_failed)
next
  assume "is_jenkins h \<and> truthy (pipeline_run_id h) \<and>
    millis (fst (total_duration_at orc h w)) = Inr ms"
  then show "sent_of (snd (after_all_tests orc (h, w))) = w_sent w @ [update_request orc h w ms]"
    by (simp add: after_all_tests_sent)
next
  have "py_getitem (rq_json (update_request orc h w ms)) ''status'' =
      Inr (JStr (overall_status_of (count_status ''FAILED'' (test_results h))))"
    by (simp add: update_request_def mk_request_def update_payload_def)
  then show "py_getitem (rq_json (update_request orc h w ms)) ''status'' =
        Inr (JStr (if (\<exists>t\<in>set (test_results h). tr_status t = ''FAILED'')
                   then ''failed'' else ''passed''))"
    by (simp only: overall_status_of_failed)
qed

theorem overall_status_failed_iff_a_result_failed_witness:
  "is_jenkins mid_session \<and> truthy (pipeline_run_id mid_session) \<and>
   millis (fst (total_duration_at backend mid_session fresh_world)) = Inr 0 \<and>
   sent_of (snd (after_all_tests backend (mid_session, fresh_world))) =
     [update_request backend mid_session fresh_world 0] \<and>
   py_getitem (rq_json (update_request backend mid_session fresh_world 0)) ''status'' =
     Inr (JStr ''failed'')"
proof -
  have a: "is_jenkins mid_session \<and> truthy (pipeline_run_id mid_session)"
    by (simp add: mid_session_def init_def ci_env_def)
  have b: "millis (fst (total_duration_at backend mid_session fresh_world)) = Inr 0"
    by (simp add: mid_session_def total_duration_at_def ftruthy_def millis_def backend_def
        fresh_world_def float_defs)
  have c: "\<exists>t\<in>set (test_results mid_session). tr_status t = ''FAILED''"
    by (simp add: mid_session_def stored_def failing_report_def report_status_def upper_def
        upper_char_def)
  from a b c
    overall_status_failed_iff_a_result_failed [of "test_results mid_session" mid_session
      backend fresh_world 0]
  show ?thesis
    by (simp add: fresh_world_def)
qed

text \<open>
  C7. \<open>after_each_test\<close> forwards the duration in whole milliseconds, cut off and not
  rounded: for a duration that is not negative and whose product with 1000 is finite, the
  \<open>duration\<close> of the request it sends is the floor of that product (the product of floats,
  as Python computes it). The float written 1.234 (the one nearest to 1.234) is forwarded as
  1234, and the float written 1.2346 as 1234 too, where rounding would give 1235.
\<close>

theorem duration_is_truncated_to_milliseconds:
  "(is_jenkins h \<and> truthy (pipeline_run_id h) \<and> d = Finite md ed \<and> 0 \<le> md \<and>
    fmul d (Finite 1000 0) = Finite m e \<longrightarrow>
      (\<exists>rq. sent_of (snd (after_each_test orc name status d err (h, w))) = w_sent w @ [rq] \<and>
         py_getitem (rq_json rq) ''duration'' = Inr (JInt \<lfloor>float_value m e\<rfloor>))) \<and>
   \<bar>float_value 5557441940175192 (- 52) - 1234 / 1000\<bar> < 1 / 2 ^ 53 \<and>
   py_int (fmul (Finite 5557441940175192 (- 52)) (Finite 1000 0)) = Inr 1234 \<and>
   \<bar>float_value 5560144099951614 (- 52) - 12346 / 10000\<bar> < 1 / 2 ^ 53 \<and>
   py_int (fmul (Finite 5560144099951614 (- 52)) (Finite 1000 0)) = Inr 1234"
proof (intro conjI impI)
  assume a: "is_jenkins h \<and> truthy (pipeline_run_id h) \<and> d = Finite md ed \<and> 0 \<le> md \<and>
    fmul d (Finite 1000 0) = Finite m e"
  then have "fround (md * 1000) ed = Finite m e"
    by auto
  moreover from a have "0 \<le> md * 1000"
    by simp
  ultimately have "0 \<le> m"
    by (rule fround_nonneg [rotated])
  then have "py_int (Finite m e) = Inr \<lfloor>float_value m e\<rfloor>"
    by (rule py_int_floor)
  with a have ms: "py_int (fmul d (Finite 1000 0)) = Inr \<lfloor>float_value m e\<rfloor>"
    by metis
  from a after_each_test_sent [OF _ _ ms]
  have "sent_of (snd (after_each_test orc name status d err (h, w))) =
      w_sent w @ [test_case_request orc h w name status err \<lfloor>float_value m e\<rfloor>]"
    by blast
  then show "\<exists>rq. sent_of (snd (after_each_test orc name status d err (h, w))) = w_sent w @ [rq] \<and>
         py_getitem (rq_json rq) ''duration'' = Inr (JInt \<lfloor>float_value m e\<rfloor>)"
    using test_case_request_duration by blast
next
  show "\<bar>float_value 5557441940175192 (- 52) - 1234 / 1000\<bar> < 1 / 2 ^ 53"
    by (simp add: float_value_def)
  show "py_int (fmul (Finite 5557441940175192 (- 52)) (Finite 1000 0)) = Inr 1234"
    by (simp add: float_defs)
  show "\<bar>float_value 5560144099951614 (- 52) - 12346 / 10000\<bar> < 1 / 2 ^ 53"
    by (simp add: float_value_def)
  show "py_int (fmul (Finite 5560144099951614 (- 52)) (Finite 1000 0)) = Inr 1234"
    by (simp add: float_defs)
qed

theorem duration_is_truncated_to_milliseconds_witness:
  "is_jenkins mid_session \<and> truthy (pipeline_run_id mid_session) \<and>
   fmul (Finite 5557441940175192 (- 52)) (Finite 1000 0) = Finite 5427189394702336 (- 42) \<and>
   (\<exists>rq. sent_of (snd (after_each_test backend ''test_login_success'' ''passed''
              (Finite 5557441940175192 (- 52)) None (mid_session, fresh_world))) = [rq] \<and>
      py_getitem (rq_json rq) ''duration'' = Inr (JInt 1234))"
proof -
  have a: "is_jenkins mid_session \<and> truthy (pipeline_run_id mid_session)"
    by (simp add: mid_session_def init_def ci_env_def)
  have b: "fmul (Finite 5557441940175192 (- 52)) (Finite 1000 0) = Finite 5427189394702336 (- 42)"
    by (simp add: float_defs)
  have "Inr \<lfloor>float_value 5427189394702336 (- 42)\<rfloor> = py_int (Finite 5427189394702336 (- 42))"
    by (simp add: py_int_floor)
  also have "\<dots> = Inr 1234"
    by (simp add: float_defs)
  finally have c: "\<lfloor>float_value 5427189394702336 (- 42)\<rfloor> = 1234"
    by simp
  from a b c
    duration_is_truncated_to_milliseconds [of mid_session "Finite 5557441940175192 (- 52)"
      5557441940175192 "- 52" 5427189394702336 "- 42" backend "''test_login_success''"
      "''passed''" None fresh_world]
  show ?thesis
    by (simp add: fresh_world_def)
qed

text \<open>
  C1. A session that starts with a new client ends with one stored record for each reported
  test, in order. For every list of records, the three counts the client computes are the
  numbers of records stored as PASSED, as FAILED and as SKIPPED, and the total is the length
  of the list; the three counts sum to at most the total, and to the total when every record
  is stored with one of the three statuses, as it is when every reported outcome is passed,
  failed or skipped. On the local path a list that is not empty is summarised with these four
  numbers; on the remote path, when the elapsed time converts to milliseconds, the one request
  sent carries the total and the counts of passed and failed records.
\<close>

theorem counts_are_the_tally_of_the_results:
  "results_of (snd (session orc reps (init env, w0))) = map stored reps \<and>
   count_status ''PASSED'' rs = tally ''PASSED'' rs \<and>
   count_status ''FAILED'' rs = tally ''FAILED'' rs \<and>
   count_status ''SKIPPED'' rs = tally ''SKIPPED'' rs \<and>
   tally ''PASSED'' rs + tally ''FAILED'' rs + tally ''SKIPPED'' rs \<le> int (length rs) \<and>
   ((\<forall>t\<in>set rs. tr_status t \<in> {''PASSED'', ''FAILED'', ''SKIPPED''}) \<longrightarrow>
      tally ''PASSED'' rs + tally ''FAILED'' rs + tally ''SKIPPED'' rs = int (length rs)) \<and>
   ((\<forall>rep\<in>set reps. rep_outcome rep \<in> {''passed'', ''failed'', ''skipped''}) \<longrightarrow>
      (\<forall>t\<in>set (map stored reps). tr_status t \<in> {''PASSED'', ''FAILED'', ''SKIPPED''})) \<and>
   (local_only h \<and> test_results h \<noteq> [] \<longrightarrow>
      after_all_tests orc (h, w) =
        (Inr (), (h, w\<lparr>w_log := w_log w @
           [(INFO, [], []), (INFO, banner, []), (INFO, ''Test Execution Summary'', []),
            (INFO, banner, []),
            (INFO, ''Total: {} | {} | {} | {}'',
               [JInt (int (length (test_results h))), JInt (tally ''PASSED'' (test_results h)),
                JInt (tally ''FAILED'' (test_results h)),
                JInt (tally ''SKIPPED'' (test_results h))]),
            (INFO, banner, [])]\<rparr>))) \<and>
   (is_jenkins h' \<and> truthy (pipeline_run_id h') \<and>
    millis (fst (total_duration_at orc h' w')) = Inr ms \<longrightarrow>
      sent_of (snd (after_all_tests orc (h', w'))) = w_sent w' @ [update_request orc h' w' ms] \<and>
      py_getitem (rq_json (update_request orc h' w' ms)) ''total_tests'' =
        Inr (JInt (int (length (test_results h')))) \<and>
      py_getitem (rq_json (update_request orc h' w' ms)) ''passed_tests'' =
        Inr (JInt (tally ''PASSED'' (test_results h'))) \<and>
      py_getitem (rq_json (update_request orc h' w' ms)) ''failed_tests'' =
        Inr (JInt (tally ''FAILED'' (test_results h'))))"
proof (intro conjI impI)
  show "results_of (snd (session orc reps (init env, w0))) = map stored reps"
    by (simp add: results_session) (simp add: results_of_def init_def)
next
  assume "\<forall>t\<in>set rs. tr_status t \<in> {''PASSED'', ''FAILED'', ''SKIPPED''}"
  then show "tally ''PASSED'' rs + tally ''FAILED'' rs + tally ''SKIPPED'' rs = int (length rs)"
    by (simp only: tally_sum_eq)
next
  assume "\<forall>rep\<in>set reps. rep_outcome rep \<in> {''passed'', ''failed'', ''skipped''}"
  then show "\<forall>t\<in>set (map stored reps). tr_status t \<in> {''PASSED'', ''FAILED'', ''SKIPPED''}"
    using stored_status by auto
next
  assume "local_only h \<and> test_results h \<noteq> []"
  then show "after_all_tests orc (h, w) =
        (Inr (), (h, w\<lparr>w_log := w_log w @
           [(INFO, [], []), (INFO, banner, []), (INFO, ''Test Execution Summary'', []),
            (INFO, banner, []),
            (INFO, ''Total: {} | {} | {} | {}'',
               [JInt (int (length (test_results h))), JInt (tally ''PASSED'' (test_results h)),
                JInt (tally ''FAILED'' (test_results h)),
                JInt (tally ''SKIPPED'' (test_results h))]),
            (INFO, banner, [])]\<rparr>))"
    by (simp add: after_all_tests_local summary_lines_def count_status_tally)
next
  assume "is_jenkins h' \<and> truthy (pipeline_run_id h') \<and>
    millis (fst (total_duration_at orc h' w')) = Inr ms"
  then show "sent_of (snd (after_all_tests orc (h', w'))) =
      w_sent w' @ [update_request orc h' w' ms]"
    by (simp add: after_all_tests_sent)
qed (simp_all add: count_status_tally tally_sum_le update_request_counts)

theorem counts_are_the_tally_of_the_results_witness:
  "rep_outcome passing_report = ''passed'' \<and> rep_outcome failing_report = ''failed'' \<and>
   rep_outcome skipped_report = ''skipped'' \<and>
   map tr_status (map stored [passing_report, failing_report, skipped_report]) =
     [''PASSED'', ''FAILED'', ''SKIPPED''] \<and>
   tally ''PASSED'' (map stored [passing_report, failing_report, skipped_report]) +
   tally ''FAILED'' (map stored [passing_report, failing_report, skipped_report]) +
   tally ''SKIPPED'' (map stored [passing_report, failing_report, skipped_report]) = 3 \<and>
   local_only ((init local_env)\<lparr>test_results := [stored passing_report]\<rparr>) \<and>
   (INFO, ''Total: {} | {} | {} | {}'', [JInt 1, JInt 1, JInt 0, JInt 0]) \<in>
     set (w_log (snd (snd (after_all_tests backend
       ((init local_env)\<lparr>test_results := [stored passing_report]\<rparr>, fresh_world))))) \<and>
   is_jenkins mid_session \<and> truthy (pipeline_run_id mid_session) \<and>
   millis (fst (total_duration_at backend mid_session fresh_world)) = Inr 0 \<and>
   py_getitem (rq_json (update_request backend mid_session fresh_world 0)) ''total_tests'' =
     Inr (JInt 2) \<and>
   py_getitem (rq_json (update_request backend mid_session fresh_world 0)) ''failed_tests'' =
     Inr (JInt 1)"
proof -
  let ?reps = "[passing_report, failing_report, skipped_report]"
  let ?h = "(init local_env)\<lparr>test_results := [stored passing_report]\<rparr>"
  have a: "\<forall>rep\<in>set ?reps. rep_outcome rep \<in> {''passed'', ''failed'', ''skipped''}"
    by (simp add: passing_report_def failing_report_def skipped_report_def)
  have b: "local_only ?h \<and> test_results ?h \<noteq> []"
    by (simp add: local_only_def init_def local_env_def)
  have c: "is_jenkins mid_session \<and> truthy (pipeline_run_id mid_session) \<and>
      millis (fst (total_duration_at backend mid_session fresh_world)) = Inr 0"
    by (simp add: mid_session_def init_def ci_env_def total_duration_at_def ftruthy_def
        millis_def backend_def fresh_world_def float_defs)
  have d: "tally ''PASSED'' (test_results ?h) = 1 \<and> tally ''FAILED'' (test_results ?h) = 0 \<and>
      tally ''SKIPPED'' (test_results ?h) = 0"
    by (simp add: tally_def stored_def passing_report_def report_status_def upper_def
        upper_char_def)
  have e: "tally ''FAILED'' (test_results mid_session) = 1"
    by (simp add: tally_def mid_session_def stored_def failing_report_def skipped_report_def
        report_status_def upper_def upper_char_def)
  have f: "length (test_results mid_session) = 2"
    by (simp add: mid_session_def)
  have g: "rep_outcome passing_report = ''passed'' \<and> rep_outcome failing_report = ''failed'' \<and>
      rep_outcome skipped_report = ''skipped'' \<and>
      map tr_status (map stored ?reps) = [''PASSED'', ''FAILED'', ''SKIPPED'']"
    by (simp add: passing_report_def failing_report_def skipped_report_def stored_def
        report_status_def upper_def upper_char_def)
  from a b c d e f g
    counts_are_the_tally_of_the_results [of backend ?reps local_env fresh_world
      "map stored ?reps" ?h fresh_world mid_session fresh_world 0]
  show ?thesis
    by simp
qed

text \<open>A test reported with another outcome is recorded with the status UNKNOWN: the summary
  of a session of that one test has the total 1 and three counts of 0.\<close>

theorem unknown_status_is_in_no_count:
  "(INFO, ''Total: {} | {} | {} | {}'', [JInt 1, JInt 0, JInt 0, JInt 0]) \<in>
     set (w_log (snd (snd (session backend [rerun_report] (init local_env, fresh_world)))))"
  by (simp add: session_local init_def local_env_def fresh_world_def summary_lines_def
      count_status_def stored_def rerun_report_def report_status_def upper_def upper_char_def)

text \<open>
  C6. A new client under CI, with a build number \<open>int\<close> accepts, records three tests whose
  outcomes are passed, failed and skipped in any order, with durations and clock readings that
  convert to milliseconds. Every call is answered with a success status and every POST with a
  truthy JSON body, the body of the create call holding a truthy run identifier. Then the
  session returns normally, the counters end at 1 create call, 3 test-case calls and 1 update
  call, five requests were sent (the create call, three test-case calls, the update), and the
  payload of the update has \<open>total_tests\<close> 3, \<open>passed_tests\<close> 1, \<open>failed_tests\<close> 1 and the
  status \<open>failed\<close>.
\<close>

theorem three_tests_on_ci_with_working_backend:
  assumes ci: "is_jenkins (init env)"
    and bn: "int_of_str orc (build_number (init env)) = Some bn"
    and ok: "all_calls_succeed orc"
    and valid: "valid_run_id (create_outcome orc (init env) fresh_world bn)"
    and three: "mset (map rep_outcome reps) = {#''passed'', ''failed'', ''skipped''#}"
    and dur: "\<forall>rep\<in>set reps. converts (rep_duration rep)"
    and clk: "\<forall>j k. converts (fsub (clock orc k) (clock orc j))"
  shows "fst (session orc reps (init env, fresh_world)) = Inr () \<and>
    api_call_count (self_of (snd (session orc reps (init env, fresh_world)))) =
      [(''api-1'', 1), (''api-3'', 3), (''api-4'', 1)] \<and>
    (\<exists>c t1 t2 t3 u.
       sent_of (snd (session orc reps (init env, fresh_world))) = [c, t1, t2, t3, u] \<and>
       rq_method c = POST \<and> rq_url c = api_base_url (init env) @ ''/api/pipeline-runs/'' \<and>
       (\<forall>t\<in>{t1, t2, t3}. rq_method t = POST \<and>
          rq_url t = api_base_url (init env) @ ''/api/test-cases/'') \<and>
       rq_method u = PATCH \<and>
       py_getitem (rq_json u) ''total_tests'' = Inr (JInt 3) \<and>
       py_getitem (rq_json u) ''passed_tests'' = Inr (JInt 1) \<and>
       py_getitem (rq_json u) ''failed_tests'' = Inr (JInt 1) \<and>
       py_getitem (rq_json u) ''status'' = Inr (JStr ''failed''))"
proof -
  let ?h0 = "init env"
  let ?s0 = "(?h0, fresh_world)"
  let ?s1 = "snd (before_all_tests orc ?s0)"
  let ?s2 = "snd (record_reports orc reps ?s1)"
  let ?s3 = "snd (after_all_tests orc ?s2)"
  from valid obtain rid
    where rid: "nested_run_id (post_returns (create_outcome orc ?h0 fresh_world bn)) = Some rid"
      and truthy: "truthy rid"
    by (auto simp: valid_run_id_def split: option.splits)
  have c0: "api_call_count ?h0 = [(''api-1'', 0), (''api-3'', 0), (''api-4'', 0)]"
    by (simp add: init_def)
  then have c1: "map_of (api_call_count ?h0) ''api-1'' = Some 0"
    by simp
  define h1 where "h1 = ?h0\<lparr>pipeline_run_id := rid,
      suite_start_time := Some (clock orc 0),
      api_call_count := [(''api-1'', 1), (''api-3'', 0), (''api-4'', 0)]\<rparr>"
  from before_all_tests_success [OF ci bn rid c1]
  have s1: "self_of ?s1 = h1" and sent1: "sent_of ?s1 = [create_request orc ?h0 fresh_world bn]"
    by (simp_all add: h1_def c0 fresh_world_def)
  from tally_three [OF three] have n: "length reps = 3"
    by blast
  define h2 where "h2 = h1\<lparr>test_results := map stored reps,
      api_call_count := [(''api-1'', 1), (''api-3'', 3), (''api-4'', 0)]\<rparr>"
  have p: "is_jenkins (self_of ?s1)" "truthy (pipeline_run_id (self_of ?s1))"
      "map_of (api_call_count (self_of ?s1)) ''api-3'' = Some 0"
    unfolding s1 using ci truthy by (simp_all add: h1_def)
  from record_reports_success [OF ok p(1) p(2) dur p(3)] obtain rqs
    where s2: "self_of ?s2 = h2" and sent2: "sent_of ?s2 = sent_of ?s1 @ rqs"
      and len: "length rqs = 3"
      and posts: "\<forall>rq\<in>set rqs. rq_method rq = POST \<and>
        rq_url rq = api_base_url ?h0 @ ''/api/test-cases/''"
    unfolding s1 n by (auto simp: h1_def h2_def init_def)
  from len obtain t1 t2 t3 where rqs: "rqs = [t1, t2, t3]"
    by (auto simp: length_Suc_conv numeral_3_eq_3)
  obtain w2 where st2: "?s2 = (h2, w2)"
    using s2 by (cases ?s2) (simp add: self_of_def)
  have start: "suite_start_time h2 = Some (clock orc 0)"
    by (simp add: h2_def h1_def)
  from millis_converts [OF clk start] obtain ms
    where ms: "millis (fst (total_duration_at orc h2 w2)) = Inr ms"
    by blast
  have q: "is_jenkins h2" "truthy (pipeline_run_id h2)"
      "map_of (api_call_count h2) ''api-4'' = Some 0"
    using ci truthy by (simp_all add: h2_def h1_def)
  from after_all_tests_success [OF q(1) q(2) ok ms q(3)]
  have s3: "api_call_count (self_of ?s3) = [(''api-1'', 1), (''api-3'', 3), (''api-4'', 1)]"
    unfolding st2 by (simp add: h2_def)
  from after_all_tests_sent [OF q(1) q(2) ms] sent2 sent1 rqs
  have sent3: "sent_of ?s3 =
      [create_request orc ?h0 fresh_world bn, t1, t2, t3, update_request orc h2 w2 ms]"
    unfolding st2 by (simp add: sent_of_def)
  have session: "session orc reps ?s0 = after_all_tests orc ?s2"
    unfolding session_def
    by (simp add: seq_never_raises never_raises_before_all_tests never_raises_record_reports)
  have results: "test_results h2 = map stored reps"
    by (simp add: h2_def)
  from tally_three [OF three]
  have counts: "py_getitem (rq_json (update_request orc h2 w2 ms)) ''total_tests'' = Inr (JInt 3)"
      "py_getitem (rq_json (update_request orc h2 w2 ms)) ''passed_tests'' = Inr (JInt 1)"
      "py_getitem (rq_json (update_request orc h2 w2 ms)) ''failed_tests'' = Inr (JInt 1)"
    using update_request_counts [of orc h2 w2 ms] unfolding results by simp_all
  from tally_three(2) [OF three]
  have status: "py_getitem (rq_json (update_request orc h2 w2 ms)) ''status'' =
      Inr (JStr ''failed'')"
    by (simp add: update_request_def mk_request_def update_payload_def results
        count_status_tally overall_status_of_def)
  have "fst (session orc reps ?s0) = Inr ()"
    by (rule never_raises_unit) (simp add: session_def never_raises_seq
        never_raises_before_all_tests never_raises_record_reports never_raises_after_all_tests)
  moreover have "rq_method (create_request orc ?h0 fresh_world bn) = POST \<and>
      rq_url (create_request orc ?h0 fresh_world bn) = api_base_url ?h0 @ ''/api/pipeline-runs/''"
    by (simp add: create_request_def mk_request_def)
  moreover have "rq_method (update_request orc h2 w2 ms) = PATCH"
    by (simp add: update_request_def)
  moreover from posts rqs have "\<forall>t\<in>{t1, t2, t3}. rq_method t = POST \<and>
      rq_url t = api_base_url ?h0 @ ''/api/test-cases/''"
    by simp
  ultimately show ?thesis
    unfolding session using s3 sent3 counts status by blast
qed

theorem three_tests_on_ci_with_working_backend_witness:
  "is_jenkins (init ci_env) \<and>
   int_of_str backend (build_number (init ci_env)) = Some 7 \<and>
   all_calls_succeed backend \<and>
   valid_run_id (create_outcome backend (init ci_env) fresh_world 7) \<and>
   mset (map rep_outcome [failing_report, skipped_report, passing_report]) =
     {#''passed'', ''failed'', ''skipped''#} \<and>
   converts (rep_duration failing_report) \<and> converts (rep_duration skipped_report) \<and>
   converts (rep_duration passing_report) \<and>
   (\<forall>j k. converts (fsub (clock backend k) (clock backend j))) \<and>
   api_call_count (self_of (snd (session backend [failing_report, skipped_report, passing_report]
     (init ci_env, fresh_world)))) = [(''api-1'', 1), (''api-3'', 3), (''api-4'', 1)]"
proof -
  let ?reps = "[failing_report, skipped_report, passing_report]"
  have ci: "is_jenkins (init ci_env)"
    by (simp add: init_def ci_env_def)
  have bn: "int_of_str backend (build_number (init ci_env)) = Some 7"
    by (simp add: init_def ci_env_def getenv_def backend_def)
  have ok: "all_calls_succeed backend"
    by (simp add: all_calls_succeed_def call_succeeds_def backend_def split: http_method.split)
  have valid: "valid_run_id (create_outcome backend (init ci_env) fresh_world 7)"
    by (simp add: valid_run_id_def create_outcome_def create_request_def backend_def
        post_returns_def nested_run_id_def)
  have three: "mset (map rep_outcome ?reps) = {#''passed'', ''failed'', ''skipped''#}"
    by (simp add: failing_report_def skipped_report_def passing_report_def)
  have dur: "\<forall>rep\<in>set ?reps. converts (rep_duration rep)"
    by (simp add: failing_report_def skipped_report_def passing_report_def converts_def
        float_defs)
  note clk = backend_clock_converts
  from ci bn ok valid three dur clk
    three_tests_on_ci_with_working_backend [OF ci bn ok valid three dur clk]
  show ?thesis
    by simp
qed


text \<open>A success status alone is not enough: when the test-case calls are answered 201 with an
  empty JSON object (and the create call with a valid identifier), the same three tests leave
  the counter of test-case calls at 0.\<close>

theorem success_with_empty_body_is_not_counted:
  "test_case_calls (snd (session terse [passing_report, failing_report, skipped_report]
      (init ci_env, fresh_world))) = Some 0 \<and>
   valid_run_id (create_outcome terse (init ci_env) fresh_world 7)"
proof -
  have "keeps test_case_calls (session terse [passing_report, failing_report, skipped_report])"
    unfolding session_def
    by (intro keeps_seq keeps_calls_before_all_tests keeps_calls_record_reports
        keeps_calls_after_all_tests)
  then have "test_case_calls (snd (session terse [passing_report, failing_report, skipped_report]
      (init ci_env, fresh_world))) = test_case_calls (init ci_env, fresh_world)"
    unfolding keeps_def by blast
  moreover have "test_case_calls (init ci_env, fresh_world) = Some 0"
    by (simp add: test_case_calls_def init_def)
  moreover have "valid_run_id (create_outcome terse (init ci_env) fresh_world 7)"
    by (simp add: valid_run_id_def create_outcome_def create_request_def terse_def
        post_returns_def nested_run_id_def mk_request_def create_payload_def)
  ultimately show ?thesis
    by simp
qed

text \<open>
  C9. For a name that is not configured yet, a call of \<open>get_logger\<close> in which the directory and
  the file can be made returns the logger with exactly two handlers, a file handler for the
  file named after the name and the day of that call and a stream handler. Every later call
  for the same name, however many and whatever the day and the state of the disk, returns
  that same logger and leaves the registry as it is: no handler is attached again.
\<close>

theorem get_logger_attaches_handlers_once:
  assumes "unconfigured reg name" and "makedirs_error out = None" and "open_error out = None"
  shows "get_logger out name reg = (Inr (configured out name), reg(name \<mapsto> configured out name)) \<and>
    get_logger_again outs name (reg(name \<mapsto> configured out name)) =
      (replicate (length outs) (Inr (configured out name)), reg(name \<mapsto> configured out name)) \<and>
    map hd_kind (lg_handlers (configured out name)) =
      [FileHandler (''logs/'' @ name @ ''_'' @ today out @ ''.log''), StreamHandler]"
proof -
  have "lg_handlers (configured out name) \<noteq> []"
    by (simp add: configured_def)
  then have "get_logger_again outs name (reg(name \<mapsto> configured out name)) =
      (replicate (length outs) (Inr (configured out name)), reg(name \<mapsto> configured out name))"
    by (intro get_logger_again_configured) simp_all
  with get_logger_first [OF assms] show ?thesis
    by (simp add: configured_def)
qed

theorem get_logger_attaches_handlers_once_witness:
  "unconfigured Map.empty ''conftest'' \<and>
   makedirs_error first_day = None \<and> open_error first_day = None \<and>
   get_logger first_day ''conftest'' Map.empty =
     (Inr (configured first_day ''conftest''), [''conftest'' \<mapsto> configured first_day ''conftest'']) \<and>
   get_logger_again [full_disk, first_day] ''conftest''
       [''conftest'' \<mapsto> configured first_day ''conftest''] =
     ([Inr (configured first_day ''conftest''), Inr (configured first_day ''conftest'')],
      [''conftest'' \<mapsto> configured first_day ''conftest'']) \<and>
   map hd_kind (lg_handlers (configured first_day ''conftest'')) =
     [FileHandler ''logs/conftest_20240101.log'', StreamHandler]"
proof -
  have a: "unconfigured Map.empty ''conftest''"
    by (simp add: unconfigured_def)
  have b: "makedirs_error first_day = None" "open_error first_day = None"
    by (simp_all add: first_day_def)
  from a b get_logger_attaches_handlers_once [OF a b, of "[full_disk, first_day]"]
  show ?thesis
    by (simp add: first_day_def)
qed

text \<open>
  C8. \<open>save_screenshot_on_failure\<close> does nothing for a test without a browser session
  among its fixtures, and it catches what fails while the screenshot is attached to the
  reports: without the report plugin it returns normally, the screenshot file written. But
  what fails before the attachment is not caught: for a failed test with a browser session,
  an exception of the screenshot call leaves the function, and so does an exception of the
  making of the directory, since both calls stand before the \<open>try\<close>. The teardown of the
  \<open>py\<close> fixture, which takes a screenshot of the same failed test, has the call inside its
  \<open>try\<close>.
\<close>

theorem screenshot_failure_is_raised:
  "fst (save_screenshot_on_failure broken_browser login_item empty_reports) =
     Inl (Exn OtherException ''no such window'') \<and>
   fst (save_screenshot_on_failure read_only_directory login_item empty_reports) =
     Inl (Exn OSError ''Read-only file system'') \<and>
   save_screenshot_on_failure no_report_plugin login_item empty_reports =
     (Inr (), empty_reports
        \<lparr>sw_dirs := [''reports/screenshots''],
         sw_files := [''reports/screenshots/test_login_invalid_20240101_120000.png'']\<rparr>) \<and>
   save_screenshot_on_failure broken_browser (login_item\<lparr>funcargs := Map.empty\<rparr>)
     empty_reports = (Inr (), empty_reports)"
  by (simp add: save_screenshot_on_failure_def fixture_truthy_def fails_def Let_def
      attach_screenshot_def os_path_join_def login_item_def broken_browser_def
      read_only_directory_def no_report_plugin_def empty_reports_def)

end
